theory Spec2Isabelle
  imports Complex_Main
begin

section \<open>Values shared by the classifier and the circuit builder\<close>

text \<open>
  The exceptions the Python code raises, as values. \<open>OutOfRange\<close> is the out-of-range
  condition of the builder's index check; \<open>External\<close> stands for any exception raised
  by a collaborator outside the repository (backend, loss function, optimizer).
\<close>

datatype error =
    TypeError
  | ValueError
  | IndexError
  | AttributeError
  | ZeroDivisionError
  | OverflowError
  | OutOfRange
  | External string

text \<open>
  A Python float as far as the code compares it: a finite real, the two infinities or
  NaN. \<open>np.inf\<close> is \<open>PosInf\<close>; \<open>float_lt a b\<close> is Python's \<open>a < b\<close>, which is false
  whenever an operand is NaN. Rounding is not modelled.
\<close>

datatype pyfloat = Finite real | PosInf | NegInf | NaN

fun float_lt :: "pyfloat \<Rightarrow> pyfloat \<Rightarrow> bool" where
  "float_lt NaN _ = False"
| "float_lt _ NaN = False"
| "float_lt (Finite a) (Finite b) = (a < b)"
| "float_lt (Finite a) PosInf = True"
| "float_lt (Finite a) NegInf = False"
| "float_lt PosInf _ = False"
| "float_lt NegInf NegInf = False"
| "float_lt NegInf _ = True"

type_synonym matrix = "real list list"

text \<open>Sequencing of fallible steps that touch no state.\<close>

fun mapM :: "('a \<Rightarrow> error + 'b) \<Rightarrow> 'a list \<Rightarrow> error + 'b list" where
  "mapM f [] = Inr []"
| "mapM f (x # xs) =
     (case f x of
        Inl e \<Rightarrow> Inl e
      | Inr y \<Rightarrow> (case mapM f xs of Inl e \<Rightarrow> Inl e | Inr ys \<Rightarrow> Inr (y # ys)))"

subsection \<open>Strings\<close>

text \<open>\<open>str(n)\<close> and \<open>bin(n)\<close> of a Python int.\<close>

definition digit_char :: "nat \<Rightarrow> char" where
  "digit_char d = ''0123456789'' ! d"

fun str_nat :: "nat \<Rightarrow> string" where
  "str_nat n = (if n < 10 then [digit_char n] else str_nat (n div 10) @ [digit_char (n mod 10)])"

definition str_int :: "int \<Rightarrow> string" where
  "str_int i = (if i < 0 then CHR ''-'' # str_nat (nat (- i)) else str_nat (nat i))"

fun bin_nat :: "nat \<Rightarrow> string" where
  "bin_nat n = (if n < 2 then [digit_char n] else bin_nat (n div 2) @ [digit_char (n mod 2)])"

definition bin :: "int \<Rightarrow> string" where
  "bin i = (if i < 0 then ''-0b'' @ bin_nat (nat (- i)) else ''0b'' @ bin_nat (nat i))"

text \<open>
  \<open>int(s, 2)\<close> on a string of ASCII characters, as CPython reads it: whitespace on both
  sides is skipped; a sign may come first; then the prefix \<open>0b\<close> or \<open>0B\<close> may come, and
  one underscore after it; then come binary digits, most significant first, with single
  underscores allowed between them; there is at least one digit, the digits do not start
  or end with an underscore, and nothing but whitespace follows. Anything else raises
  ValueError. Whitespace is tab, line feed, vertical tab, form feed, carriage return and
  space; characters beyond ASCII are not modelled.
\<close>

definition is_space :: "char \<Rightarrow> bool" where
  "is_space c =
     (c \<in> set [CHR 0x09, CHR 0x0A, CHR 0x0B, CHR 0x0C, CHR 0x0D, CHR 0x20])"

text \<open>
  The digits: the value so far, the number of digits so far, whether the last
  character was an underscore, and the input left. The scan stops at the first
  character that is neither a binary digit nor an underscore and returns the rest.
\<close>

fun scan_binary :: "int \<Rightarrow> nat \<Rightarrow> bool \<Rightarrow> string \<Rightarrow> error + int \<times> nat \<times> string" where
  "scan_binary acc n us [] = (if us then Inl ValueError else Inr (acc, n, []))"
| "scan_binary acc n us (c # cs) =
     (if c = CHR ''0'' then scan_binary (2 * acc) (Suc n) False cs
      else if c = CHR ''1'' then scan_binary (2 * acc + 1) (Suc n) False cs
      else if c = CHR ''_'' then (if us then Inl ValueError else scan_binary acc n True cs)
      else if us then Inl ValueError
      else Inr (acc, n, c # cs))"

definition strip_sign :: "string \<Rightarrow> bool \<times> string" where
  "strip_sign s =
     (case s of
        [] \<Rightarrow> (False, s)
      | c # r \<Rightarrow> if c = CHR ''+'' then (False, r) else if c = CHR ''-'' then (True, r) else (False, s))"

definition strip_prefix :: "string \<Rightarrow> string" where
  "strip_prefix s =
     (case s of
        z # b # r \<Rightarrow>
          if z = CHR ''0'' \<and> (b = CHR ''b'' \<or> b = CHR ''B'')
          then (case r of [] \<Rightarrow> r | u # r' \<Rightarrow> if u = CHR ''_'' then r' else r)
          else s
      | _ \<Rightarrow> s)"

definition int_base2 :: "string \<Rightarrow> error + int" where
  "int_base2 s =
     (let (neg, s2) = strip_sign (dropWhile is_space s);
          s3 = strip_prefix s2
      in case s3 of
           [] \<Rightarrow> Inl ValueError
         | c # _ \<Rightarrow>
             if c = CHR ''_'' then Inl ValueError
             else (case scan_binary 0 0 False s3 of
                     Inl e \<Rightarrow> Inl e
                   | Inr (v, n, rest) \<Rightarrow>
                       if n = 0 \<or> dropWhile is_space rest \<noteq> [] then Inl ValueError
                       else Inr (if neg then - v else v)))"

text \<open>
  The integer code of a bitstring in the spec's sense, a string of binary digits: the
  sum of the powers of two at the positions of its ones.
\<close>

fun code_of_bits :: "string \<Rightarrow> int" where
  "code_of_bits [] = 0"
| "code_of_bits (c # cs) = (if c = CHR ''1'' then 2 ^ length cs else 0) + code_of_bits cs"

definition binary_string :: "string \<Rightarrow> bool" where
  "binary_string s = (s \<noteq> [] \<and> list_all (\<lambda>c. c = CHR ''0'' \<or> c = CHR ''1'') s)"

text \<open>\<open>s.lower()\<close> on ASCII letters, \<open>s.startswith(p)\<close>, and the substring test \<open>sub in s\<close>.\<close>

definition lower_char :: "char \<Rightarrow> char" where
  "lower_char c =
     (case map_of (zip ''ABCDEFGHIJKLMNOPQRSTUVWXYZ'' ''abcdefghijklmnopqrstuvwxyz'') c of
        Some l \<Rightarrow> l
      | None \<Rightarrow> c)"

definition lower :: "string \<Rightarrow> string" where
  "lower s = map lower_char s"

fun starts_with :: "string \<Rightarrow> string \<Rightarrow> bool" where
  "starts_with [] s = True"
| "starts_with (p # ps) [] = False"
| "starts_with (p # ps) (c # cs) = (p = c \<and> starts_with ps cs)"

fun str_in :: "string \<Rightarrow> string \<Rightarrow> bool" where
  "str_in sub [] = (sub = [])"
| "str_in sub (c # cs) = (starts_with sub (c # cs) \<or> str_in sub cs)"

section \<open>The classifier (quantumClassifier.py)\<close>

subsection \<open>Collaborators outside the repository\<close>

text \<open>
  The state of numpy's global random generator is a natural number. A \<open>circuitML\<close> is
  known to the classifier by its \<open>run\<close> method (input matrix, parameters, shots, job size),
  by \<open>random_params\<close>, which draws from the generator, and by its \<open>str\<close>. The loss is a
  function of the minibatch labels, the predicted probabilities and the label set.
\<close>

type_synonym loss_function = "int list \<Rightarrow> matrix \<Rightarrow> int list \<Rightarrow> error + pyfloat"

record circuitML =
  run :: "real list list \<Rightarrow> real list \<Rightarrow> int option \<Rightarrow> int option \<Rightarrow> error + matrix"
  random_params :: "nat \<Rightarrow> real list \<times> nat"
  descr :: string

text \<open>
  The \<open>nbshots_increment\<close> argument: absent, a float, an int, or a callable of
  \<open>(nbshots, n_iter, loss_value)\<close>.
\<close>

datatype increment =
    NoIncrement
  | FloatIncrement pyfloat
  | IntIncrement int
  | Callable "int option \<Rightarrow> int \<Rightarrow> pyfloat \<Rightarrow> error + int option"

text \<open>
  \<open>scipy.optimize.minimize\<close> is known by what it does to its two arguments: it
  evaluates the objective at a point and goes on according to the value (\<open>Probe\<close>),
  reports a finished iteration to its callback hook (\<open>Report\<close>), raises (\<open>Raise\<close>), or
  returns a result whose \<open>x\<close> is the final iterate (\<open>Done\<close>). A run of the optimizer is a
  tree of such steps; it is finite along every path, so every run ends.
\<close>

datatype optimizer =
    Done "real list"
  | Probe "real list" "pyfloat \<Rightarrow> optimizer"
  | Report "real list" optimizer
  | Raise error

type_synonym bounds = "(real option \<times> real option) list"

record externals =
  np_seed :: "int \<Rightarrow> nat"
  np_choice :: "nat \<Rightarrow> nat \<Rightarrow> nat \<Rightarrow> (error + nat list) \<times> nat"
  minimize :: "real list \<Rightarrow> string \<Rightarrow> bounds option \<Rightarrow> (string \<times> int) list \<Rightarrow> bool \<Rightarrow> optimizer"
  CE_loss :: loss_function
  str_increment :: "increment \<Rightarrow> string"
  float_mul :: "pyfloat \<Rightarrow> int \<Rightarrow> error + pyfloat"

text \<open>
  \<open>np_choice g n k\<close> is \<open>np.random.choice(np.arange(n), size=k, replace=False)\<close> in
  generator state \<open>g\<close>; the last argument of \<open>minimize\<close> says whether a callback was
  passed. \<open>float_mul f k\<close> is Python's product \<open>f * k\<close> of a float and an int: the int is
  converted to a double, which raises OverflowError when it is too large, and the product
  is rounded as the machine rounds it. The rounding is not modelled, so the product is
  taken from outside.
\<close>

subsection \<open>The classifier's attributes\<close>

datatype info_val = IStr string | IInt int | INone | IStrs "string list"

datatype pyval = PInt int | PStr string | POther

text \<open>
  An attribute that exists only during training (\<open>__n_iter__\<close>, \<open>pbar\<close>) is an option:
  \<open>None\<close> when the object has no such attribute. The progress bar is the number of its
  updates.
\<close>

record classifier =
  circuit :: circuitML
  bitstr :: "int list"
  params :: "real list"
  nbshots :: "int option"
  nbshots_incr_delay :: int
  nbshots_increment :: increment
  budget :: int
  job_size :: "int option"
  loss :: loss_function
  min_loss :: pyfloat
  last_loss_value :: "pyfloat option"
  last_output :: "matrix option"
  last_params :: "real list option"
  loss_progress :: "pyfloat option list"
  output_progress :: "matrix list"
  params_progress :: "real list list"
  name :: "string option"
  save_path :: "string option"
  info :: "string \<rightharpoonup> info_val"
  nfev :: int
  n_iter :: "int option"
  pbar :: "nat option"

text \<open>The keyword arguments of the constructor; \<open>None\<close> is an argument not given.\<close>

record init_kwargs =
  kw_params :: "real list option"
  kw_nbshots :: "int option"
  kw_nbshots_increment :: increment
  kw_nbshots_incr_delay :: "int option"
  kw_loss :: "loss_function option"
  kw_job_size :: "int option"
  kw_budget :: "int option"
  kw_name :: "string option"
  kw_save_path :: "string option"

subsection \<open>Construction\<close>

text \<open>
  The bitstring check of \<open>__init__\<close>: the type of the first element decides, every
  element must have it, and binary strings are converted with \<open>int(bit, 2)\<close>.
\<close>

definition the_int :: "pyval \<Rightarrow> error + int" where
  "the_int v = (case v of PInt i \<Rightarrow> Inr i | _ \<Rightarrow> Inl TypeError)"

definition the_str :: "pyval \<Rightarrow> error + string" where
  "the_str v = (case v of PStr s \<Rightarrow> Inr s | _ \<Rightarrow> Inl TypeError)"

definition check_bitstr :: "pyval list \<Rightarrow> error + int list" where
  "check_bitstr bs =
     (case bs of
        [] \<Rightarrow> Inl IndexError
      | PInt _ # _ \<Rightarrow> mapM the_int bs
      | PStr _ # _ \<Rightarrow>
          (case mapM the_str bs of
             Inl e \<Rightarrow> Inl e
           | Inr strs \<Rightarrow> mapM int_base2 strs)
      | POther # _ \<Rightarrow> Inl TypeError)"

definition opt_info :: "int option \<Rightarrow> info_val" where
  "opt_info v = (case v of None \<Rightarrow> INone | Some i \<Rightarrow> IInt i)"

definition init :: "externals \<Rightarrow> circuitML \<Rightarrow> pyval list \<Rightarrow> init_kwargs \<Rightarrow> nat \<Rightarrow>
    (error + classifier) \<times> nat" where
  "init ext circ bs kw g =
     (case check_bitstr bs of
        Inl e \<Rightarrow> (Inl e, g)
      | Inr codes \<Rightarrow>
          (let (ps, g') = (case kw_params kw of
                             None \<Rightarrow> random_params circ g
                           | Some p \<Rightarrow> (p, g));
               shots = (case kw_nbshots kw of
                          None \<Rightarrow> None
                        | Some n \<Rightarrow> if n < 1 then None else Some n)
           in (Inr \<lparr> circuit = circ,
                     bitstr = codes,
                     params = ps,
                     nbshots = shots,
                     nbshots_incr_delay =
                       (case kw_nbshots_incr_delay kw of None \<Rightarrow> 20 | Some d \<Rightarrow> d),
                     nbshots_increment = kw_nbshots_increment kw,
                     budget = (case kw_budget kw of None \<Rightarrow> 100 | Some b \<Rightarrow> b),
                     job_size = kw_job_size kw,
                     loss = (case kw_loss kw of None \<Rightarrow> CE_loss ext | Some l \<Rightarrow> l),
                     min_loss = PosInf,
                     last_loss_value = None,
                     last_output = None,
                     last_params = None,
                     loss_progress = [],
                     output_progress = [],
                     params_progress = [],
                     name = kw_name kw,
                     save_path = kw_save_path kw,
                     info = [''circuit'' \<mapsto> IStr (descr circ),
                             ''nbshots'' \<mapsto> opt_info shots,
                             ''nbshots_increment'' \<mapsto>
                               IStr (str_increment ext (kw_nbshots_increment kw)),
                             ''nbshots_incr_delay'' \<mapsto>
                               IStr (case kw_nbshots_incr_delay kw of
                                       None \<Rightarrow> ''None''
                                     | Some d \<Rightarrow> str_int d),
                             ''bitstr'' \<mapsto> IStrs (map bin codes),
                             ''job_size'' \<mapsto>
                               (case kw_job_size kw of
                                  None \<Rightarrow> IStr ''FULL''
                                | Some j \<Rightarrow> if j = 0 then IStr ''FULL'' else IInt j)],
                     nfev = 0,
                     n_iter = None,
                     pbar = None \<rparr>, g')))"

subsection \<open>Running the circuit and predicting\<close>

definition run_circuit :: "real list list \<Rightarrow> real list option \<Rightarrow> classifier \<Rightarrow>
    (error + matrix) \<times> classifier" where
  "run_circuit X ps c =
     (let p = (case ps of None \<Rightarrow> params c | Some q \<Rightarrow> q);
          c' = c\<lparr>nfev := nfev c + 1\<rparr>
      in (run (circuit c') X p (nbshots c') (job_size c'), c'))"

text \<open>
  numpy indexing with an integer: a negative index counts from the end, an index out
  of range raises IndexError. A two-dimensional array is the list of its rows.
\<close>

definition np_item :: "'a list \<Rightarrow> int \<Rightarrow> error + 'a" where
  "np_item xs i =
     (if 0 \<le> i \<and> i < int (length xs) then Inr (xs ! nat i)
      else if - int (length xs) \<le> i \<and> i < 0 then Inr (xs ! nat (int (length xs) + i))
      else Inl IndexError)"

definition select_columns :: "matrix \<Rightarrow> int list \<Rightarrow> error + matrix" where
  "select_columns out cols = mapM (\<lambda>row. mapM (np_item row) cols) out"

definition predict_proba :: "real list list \<Rightarrow> real list option \<Rightarrow> classifier \<Rightarrow>
    (error + matrix) \<times> classifier" where
  "predict_proba X ps c =
     (case run_circuit X ps c of
        (Inl e, c') \<Rightarrow> (Inl e, c')
      | (Inr out, c') \<Rightarrow>
          (case nbshots c' of
             None \<Rightarrow> (select_columns out (bitstr c'), c')
           | Some n \<Rightarrow>
               if n \<noteq> 0
               then (select_columns (map (map (\<lambda>v. v / real_of_int n)) out) (bitstr c'), c')
               else (select_columns out (bitstr c'), c')))"

text \<open>\<open>np.argmax\<close> of a row: the first index of the greatest value; an empty row raises.\<close>

fun argmax_from :: "nat \<Rightarrow> real \<Rightarrow> nat \<Rightarrow> real list \<Rightarrow> nat" where
  "argmax_from best v i [] = best"
| "argmax_from best v i (x # xs) =
     (if v < x then argmax_from i x (Suc i) xs else argmax_from best v (Suc i) xs)"

definition argmax :: "real list \<Rightarrow> error + nat" where
  "argmax row = (case row of [] \<Rightarrow> Inl ValueError | x # xs \<Rightarrow> Inr (argmax_from 0 x 1 xs))"

definition proba_to_label :: "matrix \<Rightarrow> error + nat list" where
  "proba_to_label proba = mapM argmax proba"

definition predict :: "real list list \<Rightarrow> classifier \<Rightarrow> (error + nat list) \<times> classifier" where
  "predict X c =
     (case predict_proba X None c of
        (Inl e, c') \<Rightarrow> (Inl e, c')
      | (Inr proba, c') \<Rightarrow> (proba_to_label proba, c'))"

definition call :: "real list list \<Rightarrow> classifier \<Rightarrow> (error + nat list) \<times> classifier" where
  "call X c = predict X c"

subsection \<open>Training state outside the object: files and the random generator\<close>

text \<open>
  What \<open>save\<close> pickles (parameters, the loss progress when it is not empty, the info
  dictionary) and what \<open>fit\<close> dumps as JSON (output, labels, loss values, parameters).
  A write always succeeds; failures of the file system are not modelled.
\<close>

datatype artifact =
    Checkpoint "real list" "pyfloat option list option" "string \<rightharpoonup> info_val"
  | Trace "matrix list" "int list" "pyfloat option list" "real list list"

record world =
  clf :: classifier
  files :: "string \<rightharpoonup> artifact"
  rng :: nat

definition truthy_str :: "string option \<Rightarrow> bool" where
  "truthy_str p = (case p of None \<Rightarrow> False | Some s \<Rightarrow> s \<noteq> [])"

definition save :: "string option \<Rightarrow> world \<Rightarrow> (error + unit) \<times> world" where
  "save path w =
     (let c = clf w;
          target = (case path of None \<Rightarrow> save_path c | Some q \<Rightarrow> Some q);
          model_info = Checkpoint (params c)
                         (if loss_progress c \<noteq> [] then Some (loss_progress c) else None)
                         (info c)
      in case target of
           None \<Rightarrow> (Inl TypeError, w)
         | Some q \<Rightarrow> (Inr (), w\<lparr>files := (files w)(q \<mapsto> model_info)\<rparr>))"

subsection \<open>The shot-adaptation policy\<close>

text \<open>
  \<open>int(x)\<close> of a float truncates towards zero; it raises OverflowError on an infinity
  and ValueError on NaN.
\<close>

definition trunc :: "real \<Rightarrow> int" where
  "trunc x = (if 0 \<le> x then \<lfloor>x\<rfloor> else \<lceil>x\<rceil>)"

definition int_of_float :: "pyfloat \<Rightarrow> error + int" where
  "int_of_float x =
     (case x of
        Finite r \<Rightarrow> Inr (trunc r)
      | PosInf \<Rightarrow> Inl OverflowError
      | NegInf \<Rightarrow> Inl OverflowError
      | NaN \<Rightarrow> Inl ValueError)"

text \<open>
  A call of \<open>self.nbshots_increment\<close>, the function \<open>__init__\<close> built from the argument.
  The float and int policies read \<open>self.nbshots_incr_delay\<close> when they are called; the
  remainder by a zero delay raises, and so does arithmetic on a \<open>None\<close> budget. The
  float policy is \<open>int(nbshots_increment * nbshots)\<close>: the float product, then \<open>int\<close>.
\<close>

definition call_nbshots_increment :: "externals \<Rightarrow> classifier \<Rightarrow> int option \<Rightarrow> int \<Rightarrow> pyfloat \<Rightarrow>
    error + int option" where
  "call_nbshots_increment ext c nb n l =
     (case nbshots_increment c of
        NoIncrement \<Rightarrow> Inr nb
      | FloatIncrement f \<Rightarrow>
          if nbshots_incr_delay c = 0 then Inl ZeroDivisionError
          else if n mod nbshots_incr_delay c = 0
          then (case nb of
                  None \<Rightarrow> Inl TypeError
                | Some k \<Rightarrow>
                    (case float_mul ext f k of
                       Inl e \<Rightarrow> Inl e
                     | Inr p \<Rightarrow>
                         (case int_of_float p of
                            Inl e \<Rightarrow> Inl e
                          | Inr v \<Rightarrow> Inr (Some v))))
          else Inr nb
      | IntIncrement i \<Rightarrow>
          if nbshots_incr_delay c = 0 then Inl ZeroDivisionError
          else if n mod nbshots_incr_delay c = 0
          then (case nb of
                  None \<Rightarrow> Inl TypeError
                | Some k \<Rightarrow> Inr (Some (k + i)))
          else Inr nb
      | Callable f \<Rightarrow> f nb n l)"

subsection \<open>The end-of-iteration callback\<close>

definition append_progress :: "real list \<Rightarrow> bool \<Rightarrow> bool \<Rightarrow> classifier \<Rightarrow>
    (error + unit) \<times> classifier" where
  "append_progress ps loss_flag output_flag c =
     (let c1 = (if loss_flag \<or> output_flag
                then c\<lparr>loss_progress := loss_progress c @ [last_loss_value c]\<rparr>
                else c)
      in if output_flag
         then (case last_output c1 of
                 None \<Rightarrow> (Inl AttributeError, c1)
               | Some out \<Rightarrow>
                   (Inr (), c1\<lparr>output_progress := output_progress c1 @ [out],
                                params_progress := params_progress c1 @ [ps]\<rparr>))
         else (Inr (), c1))"

definition update_pbar :: "world \<Rightarrow> (error + unit) \<times> world" where
  "update_pbar w =
     (case pbar (clf w) of
        None \<Rightarrow> (Inl AttributeError, w)
      | Some k \<Rightarrow> (Inr (), w\<lparr>clf := (clf w)\<lparr>pbar := Some (Suc k)\<rparr>\<rparr>))"

definition callback :: "real list \<Rightarrow> bool \<Rightarrow> bool \<Rightarrow> world \<Rightarrow> (error + unit) \<times> world" where
  "callback ps loss_flag output_flag w =
     (case append_progress ps loss_flag output_flag (clf w) of
        (Inl e, c1) \<Rightarrow> (Inl e, w\<lparr>clf := c1\<rparr>)
      | (Inr _, c1) \<Rightarrow>
          (case n_iter c1 of
             None \<Rightarrow> (Inl AttributeError, w\<lparr>clf := c1\<rparr>)
           | Some n \<Rightarrow>
               (let w2 = w\<lparr>clf := c1\<lparr>n_iter := Some (n + 1)\<rparr>\<rparr>
                in if truthy_str (save_path c1) \<and> (n + 1) mod 10 = 0
                   then (case save None w2 of
                           (Inl e, w3) \<Rightarrow> (Inl e, w3)
                         | (Inr _, w3) \<Rightarrow> update_pbar w3)
                   else update_pbar w2)))"

subsection \<open>The objective\<close>

text \<open>
  The local variables of \<open>fit\<close> that the objective and the finalization read.
  \<open>cx_nbshots\<close> is \<open>_nbshots\<close>, the shot budget saved at entry.
\<close>

record fit_ctx =
  cx_input :: "real list list"
  cx_target :: "int list"
  cx_batch :: nat
  cx_labels :: "int list"
  cx_method :: string
  cx_save_loss :: bool
  cx_save_output :: "string option"
  cx_nbshots :: "int option"

text \<open>\<open>a[idx]\<close> with an index array, and \<open>np.argsort\<close>.\<close>

definition take_rows :: "'a list \<Rightarrow> nat list \<Rightarrow> error + 'a list" where
  "take_rows xs idx = mapM (\<lambda>i. if i < length xs then Inr (xs ! i) else Inl IndexError) idx"

definition argsort :: "nat list \<Rightarrow> nat list" where
  "argsort idx = map fst (sort_key snd (enumerate 0 idx))"

text \<open>Lines 373 to 376: the minibatch is drawn, then the shot budget is recomputed.\<close>

definition adapt_shots :: "externals \<Rightarrow> world \<Rightarrow> (error + unit) \<times> world" where
  "adapt_shots ext w =
     (let c = clf w
      in case n_iter c of
           None \<Rightarrow> (Inl AttributeError, w)
         | Some n \<Rightarrow>
             (case call_nbshots_increment ext c (nbshots c) n (min_loss c) of
                Inl e \<Rightarrow> (Inl e, w)
              | Inr nb \<Rightarrow> (Inr (), w\<lparr>clf := c\<lparr>nbshots := nb\<rparr>\<rparr>)))"

text \<open>Lines 378 to 380: the probabilities of the minibatch and their loss.\<close>

definition evaluate :: "fit_ctx \<Rightarrow> real list \<Rightarrow> nat list \<Rightarrow> classifier \<Rightarrow>
    (error + pyfloat \<times> matrix) \<times> classifier" where
  "evaluate cx ps idx c =
     (case take_rows (cx_input cx) idx of
        Inl e \<Rightarrow> (Inl e, c)
      | Inr X \<Rightarrow>
          (case predict_proba X (Some ps) c of
             (Inl e, c1) \<Rightarrow> (Inl e, c1)
           | (Inr probas, c1) \<Rightarrow>
               (case take_rows (cx_target cx) idx of
                  Inl e \<Rightarrow> (Inl e, c1)
                | Inr y \<Rightarrow>
                    (case loss c1 y probas (cx_labels cx) of
                       Inl e \<Rightarrow> (Inl e, c1)
                     | Inr l \<Rightarrow> (Inr (l, probas), c1)))))"

text \<open>Lines 382 to 387: the last loss and output are stored, a strictly smaller loss is committed.\<close>

definition commit_best :: "real list \<Rightarrow> pyfloat \<Rightarrow> classifier \<Rightarrow> classifier" where
  "commit_best ps l c =
     (if float_lt l (min_loss c) then c\<lparr>min_loss := l, params := ps\<rparr> else c)"

definition record_evaluation :: "real list \<Rightarrow> nat list \<Rightarrow> pyfloat \<Rightarrow> matrix \<Rightarrow> classifier \<Rightarrow>
    (error + unit) \<times> classifier" where
  "record_evaluation ps idx l probas c =
     (let c1 = c\<lparr>last_loss_value := Some l\<rparr>
      in case take_rows probas (argsort idx) of
           Inl e \<Rightarrow> (Inl e, c1)
         | Inr out \<Rightarrow> (Inr (), commit_best ps l (c1\<lparr>last_output := Some out\<rparr>)))"

definition to_optimize :: "externals \<Rightarrow> fit_ctx \<Rightarrow> real list \<Rightarrow> world \<Rightarrow>
    (error + pyfloat) \<times> world" where
  "to_optimize ext cx ps w =
     (case np_choice ext (rng w) (length (cx_target cx)) (cx_batch cx) of
        (Inl e, g) \<Rightarrow> (Inl e, w\<lparr>rng := g\<rparr>)
      | (Inr idx, g) \<Rightarrow>
          (case adapt_shots ext (w\<lparr>rng := g\<rparr>) of
             (Inl e, w1) \<Rightarrow> (Inl e, w1)
           | (Inr _, w1) \<Rightarrow>
               (case evaluate cx ps idx (clf w1) of
                  (Inl e, c2) \<Rightarrow> (Inl e, w1\<lparr>clf := c2\<rparr>)
                | (Inr (l, probas), c2) \<Rightarrow>
                    (case record_evaluation ps idx l probas c2 of
                       (Inl e, c3) \<Rightarrow> (Inl e, w1\<lparr>clf := c3\<rparr>)
                     | (Inr _, c3) \<Rightarrow>
                         if cx_method cx = ''COBYLA''
                         then (case callback ps (cx_save_loss cx) (truthy_str (cx_save_output cx))
                                      (w1\<lparr>clf := c3\<rparr>) of
                                 (Inl e, w4) \<Rightarrow> (Inl e, w4)
                               | (Inr _, w4) \<Rightarrow> (Inr l, w4))
                         else (Inr l, w1\<lparr>clf := c3\<rparr>)))))"

subsection \<open>Training\<close>

text \<open>
  The keyword arguments of \<open>fit\<close>. \<open>default_fit_kwargs\<close> is a call that gives none of
  them.
\<close>

record fit_kwargs =
  fit_method :: string
  fit_save_loss_progress :: bool
  fit_save_output_progress :: "string option"
  fit_seed :: "int option"
  fit_options :: "(string \<times> int) list option"
  fit_bounds :: "bounds option"

definition default_fit_kwargs :: fit_kwargs where
  "default_fit_kwargs =
     \<lparr> fit_method = ''BFGS'', fit_save_loss_progress = False,
       fit_save_output_progress = None, fit_seed = None, fit_options = None,
       fit_bounds = None \<rparr>"

definition np_unique :: "int list \<Rightarrow> int list" where
  "np_unique ys = sort (remdups ys)"

text \<open>
  Lines 352 to 370: the shot budget is saved, the generator seeded when a seed is given,
  the progress bar and the iteration counter created, the batch size defaulted and the
  number of labels checked against the number of bitstrings.
\<close>

definition fit_enter :: "externals \<Rightarrow> real list list \<Rightarrow> int list \<Rightarrow> nat option \<Rightarrow> fit_kwargs \<Rightarrow>
    world \<Rightarrow> (error + fit_ctx) \<times> world" where
  "fit_enter ext input_train target_train batch_size kw w =
     (let saved = nbshots (clf w);
          w1 = (case fit_seed kw of None \<Rightarrow> w | Some s \<Rightarrow> w\<lparr>rng := np_seed ext s\<rparr>);
          w2 = w1\<lparr>clf := (clf w1)\<lparr>pbar := Some 0, n_iter := Some 0\<rparr>\<rparr>;
          batch = (case batch_size of
                     None \<Rightarrow> length target_train
                   | Some b \<Rightarrow> if b = 0 then length target_train else b);
          labels = np_unique target_train
      in if length labels > length (bitstr (clf w2)) then (Inl ValueError, w2)
         else (Inr \<lparr> cx_input = input_train, cx_target = target_train, cx_batch = batch,
                     cx_labels = labels, cx_method = fit_method kw,
                     cx_save_loss = fit_save_loss_progress kw,
                     cx_save_output = fit_save_output_progress kw,
                     cx_nbshots = saved \<rparr>, w2))"

text \<open>\<open>np.pi\<close> is the double nearest to \<open>\<pi>\<close>.\<close>

definition np_pi :: real where
  "np_pi = 884279719003555 / 281474976710656"

text \<open>
  Lines 395 to 409: the arguments of \<open>minimize\<close>. The callback is passed unless the
  lower-cased method name occurs in the string \<open>'cobyla'\<close>.
\<close>

definition passes_callback :: "string \<Rightarrow> bool" where
  "passes_callback m = (\<not> str_in (lower m) ''cobyla'')"

definition start_minimize :: "externals \<Rightarrow> fit_kwargs \<Rightarrow> classifier \<Rightarrow> optimizer" where
  "start_minimize ext kw c =
     (let opts = (case fit_options kw of
                    None \<Rightarrow> [(''maxiter'', budget c)]
                  | Some os \<Rightarrow> os);
          bnds = (if fit_method kw = ''L-BFGS-B'' \<and> fit_bounds kw = None
                  then Some (map (\<lambda>_. (Some (- np_pi), Some np_pi)) (params c))
                  else fit_bounds kw)
      in minimize ext (params c) (fit_method kw) bnds opts (passes_callback (fit_method kw)))"

text \<open>
  The optimizer's run against the classifier: a probe calls the objective and hands
  its loss back, a report calls the callback when one was passed.
\<close>

primrec drive :: "externals \<Rightarrow> fit_ctx \<Rightarrow> bool \<Rightarrow> optimizer \<Rightarrow> world \<Rightarrow>
    (error + real list) \<times> world" where
  "drive ext cx cb (Done x) w = (Inr x, w)"
| "drive ext cx cb (Raise e) w = (Inl e, w)"
| "drive ext cx cb (Probe p k) w =
     (case to_optimize ext cx p w of
        (Inl e, w') \<Rightarrow> (Inl e, w')
      | (Inr l, w') \<Rightarrow> drive ext cx cb (k l) w')"
| "drive ext cx cb (Report xk t) w =
     (if cb
      then (case callback xk (cx_save_loss cx) (truthy_str (cx_save_output cx)) w of
              (Inl e, w') \<Rightarrow> (Inl e, w')
            | (Inr _, w') \<Rightarrow> drive ext cx cb t w')
      else drive ext cx cb t w)"

text \<open>
  Lines 411 to 432: the optimizer's final iterate becomes the parameters, the counts go
  to the info dictionary, the iteration counter and the progress bar are deleted, the
  trace is dumped when a path was given, and the saved shot budget is put back.
\<close>

definition dump_trace :: "fit_ctx \<Rightarrow> world \<Rightarrow> world" where
  "dump_trace cx w =
     (case cx_save_output cx of
        None \<Rightarrow> w
      | Some path \<Rightarrow>
          if path = [] then w
          else w\<lparr>files := (files w)(path \<mapsto>
                     Trace (output_progress (clf w)) (cx_target cx)
                           (loss_progress (clf w)) (params_progress (clf w))),
                  clf := (clf w)\<lparr>output_progress := [], params_progress := []\<rparr>\<rparr>)"

definition fit_finalize :: "fit_ctx \<Rightarrow> real list \<Rightarrow> world \<Rightarrow> (error + unit) \<times> world" where
  "fit_finalize cx x w =
     (let c1 = (clf w)\<lparr>params := x\<rparr>
      in case n_iter c1 of
           None \<Rightarrow> (Inl AttributeError, w\<lparr>clf := c1\<rparr>)
         | Some n \<Rightarrow>
             (let c2 = (if info c1 ''sim_calls'' = None
                        then c1\<lparr>info := (info c1)(''nfev'' \<mapsto> IInt (nfev c1),
                                                     ''n_iter'' \<mapsto> IInt n)\<rparr>
                        else c1);
                  c3 = c2\<lparr>n_iter := None\<rparr>
              in case pbar c3 of
                   None \<Rightarrow> (Inl AttributeError, w\<lparr>clf := c3\<rparr>)
                 | Some _ \<Rightarrow>
                     (let w4 = dump_trace cx (w\<lparr>clf := c3\<lparr>pbar := None\<rparr>\<rparr>)
                      in (Inr (), w4\<lparr>clf := (clf w4)\<lparr>nbshots := cx_nbshots cx\<rparr>\<rparr>))))"

definition fit :: "externals \<Rightarrow> real list list \<Rightarrow> int list \<Rightarrow> nat option \<Rightarrow> fit_kwargs \<Rightarrow>
    world \<Rightarrow> (error + unit) \<times> world" where
  "fit ext input_train target_train batch_size kw w =
     (case fit_enter ext input_train target_train batch_size kw w of
        (Inl e, w0) \<Rightarrow> (Inl e, w0)
      | (Inr cx, w0) \<Rightarrow>
          (case drive ext cx (passes_callback (fit_method kw))
                  (start_minimize ext kw (clf w0)) w0 of
             (Inl e, w1) \<Rightarrow> (Inl e, w1)
           | (Inr x, w1) \<Rightarrow> fit_finalize cx x w1))"

section \<open>The manyQ circuit builder (manyq/mqBuilder.py)\<close>

text \<open>
  The builder holds its qubit count and its text (\<open>__txt\<close>); the gates it places go to the
  register of the manyQ module, which is the list of the gates applied so far.
\<close>

datatype gate = SX int | RZ int real | CZ int int | FSIM int int real real | MeasureAll

record mqBuilder =
  nbqbits :: int
  mq_txt :: string
  qreg :: "gate list"

definition mqBuilder_init :: "int \<Rightarrow> mqBuilder" where
  "mqBuilder_init n = \<lparr> nbqbits = n, mq_txt = [], qreg = [] \<rparr>"

text \<open>
  Modelled from the spec: \<open>__verify_index__\<close> is a method of the parent class
  \<open>circuitBuilder\<close>, whose file is not among the sources. The spec says of it: every
  placement validates indices in [0, nbqbits) and fails with an out-of-range condition
  otherwise.
\<close>

definition verify_index :: "mqBuilder \<Rightarrow> int \<Rightarrow> error + unit" where
  "verify_index b idx = (if 0 \<le> idx \<and> idx < nbqbits b then Inr () else Inl OutOfRange)"

text \<open>
  The gate methods. \<open>sf\<close> is \<open>str\<close> on a float, which the text of the circuit uses.
\<close>

definition single_input :: "(real \<Rightarrow> string) \<Rightarrow> int \<Rightarrow> real \<Rightarrow> mqBuilder \<Rightarrow>
    (error + unit) \<times> mqBuilder" where
  "single_input sf idx theta b =
     (case verify_index b idx of
        Inl e \<Rightarrow> (Inl e, b)
      | Inr _ \<Rightarrow>
          (Inr (), b\<lparr>qreg := qreg b @ [SX idx, RZ idx theta, SX idx],
                     mq_txt := mq_txt b @ ''SX('' @ str_int idx @ '')RZ('' @ str_int idx @ '','' @
                            sf theta @ '')SX('' @ str_int idx @ '')''\<rparr>))"

definition cz :: "int \<Rightarrow> int \<Rightarrow> mqBuilder \<Rightarrow> (error + unit) \<times> mqBuilder" where
  "cz a b' b =
     (case verify_index b a of
        Inl e \<Rightarrow> (Inl e, b)
      | Inr _ \<Rightarrow>
          (case verify_index b b' of
             Inl e \<Rightarrow> (Inl e, b)
           | Inr _ \<Rightarrow>
               (Inr (), b\<lparr>qreg := qreg b @ [CZ a b'],
                          mq_txt := mq_txt b @ ''CZ('' @ str_int a @ '','' @ str_int b' @ '')''\<rparr>)))"

definition fsim :: "int \<Rightarrow> int \<Rightarrow> real \<Rightarrow> real \<Rightarrow> mqBuilder \<Rightarrow> (error + unit) \<times> mqBuilder" where
  "fsim a b' theta phi b =
     (case verify_index b a of
        Inl e \<Rightarrow> (Inl e, b)
      | Inr _ \<Rightarrow>
          (case verify_index b b' of
             Inl e \<Rightarrow> (Inl e, b)
           | Inr _ \<Rightarrow>
               (Inr (), b\<lparr>qreg := qreg b @ [FSIM a b' theta phi],
                          mq_txt := mq_txt b @ ''fSIM('' @ str_int a @ '','' @ str_int b' @ '')''\<rparr>)))"

definition measure_all :: "mqBuilder \<Rightarrow> mqBuilder" where
  "measure_all b = b\<lparr>qreg := qreg b @ [MeasureAll], mq_txt := mq_txt b @ ''measure_all()''\<rparr>"

text \<open>
  The loop of \<open>input\<close> over a list of indices, which \<open>allin\<close> runs over all qubits: one
  input gate after the other, the angle of the \<open>p\<close>-th index being \<open>theta[p]\<close>.
\<close>

fun input_list :: "(real \<Rightarrow> string) \<Rightarrow> int list \<Rightarrow> real list \<Rightarrow> nat \<Rightarrow> mqBuilder \<Rightarrow>
    (error + unit) \<times> mqBuilder" where
  "input_list sf [] theta p b = (Inr (), b)"
| "input_list sf (i # is) theta p b =
     (if p < length theta
      then (case single_input sf i (theta ! p) b of
              (Inl e, b1) \<Rightarrow> (Inl e, b1)
            | (Inr _, b1) \<Rightarrow> input_list sf is theta (Suc p) b1)
      else (Inl IndexError, b))"

text \<open>\<open>input\<close> takes one index with one angle, or a list of indices with a list of angles.\<close>

datatype input_arg = Single int real | Several "int list" "real list"

definition input :: "(real \<Rightarrow> string) \<Rightarrow> input_arg \<Rightarrow> mqBuilder \<Rightarrow> (error + unit) \<times> mqBuilder" where
  "input sf a b =
     (case a of
        Several idx theta \<Rightarrow> input_list sf idx theta 0 b
      | Single idx theta \<Rightarrow> single_input sf idx theta b)"

definition allin :: "(real \<Rightarrow> string) \<Rightarrow> real list \<Rightarrow> mqBuilder \<Rightarrow> (error + unit) \<times> mqBuilder" where
  "allin sf theta b = input_list sf (map int [0 ..< nat (nbqbits b)]) theta 0 b"

section \<open>A small concrete setting\<close>

text \<open>
  A circuit with two outcomes whose outcome row, for every input row, is the parameter
  vector itself; a loss that reads the first probability of the first row; a generator
  whose every minibatch is row 0; and an optimizer whose run is given. The training set
  has one row with label 0. The float product of the setting is the exact product,
  which is the double product on the values used below (1.5 times 5 is 7.5).
  \<open>sample_entered\<close> and \<open>sample_ctx\<close> are the state and the
  local variables of \<open>fit\<close> on that training set once its entry code has run.
\<close>

definition sample_circuit :: circuitML where
  "sample_circuit =
     \<lparr> run = (\<lambda>X p shots js. Inr (map (\<lambda>x. p) X)),
       random_params = (\<lambda>g. ([0, 0], Suc g)),
       descr = ''sample'' \<rparr>"

definition sample_loss :: loss_function where
  "sample_loss y probas labels =
     (case probas of (v # _) # _ \<Rightarrow> Inr (Finite v) | _ \<Rightarrow> Inl (External ''loss''))"

definition sample_ext :: "optimizer \<Rightarrow> externals" where
  "sample_ext t =
     \<lparr> np_seed = (\<lambda>s. nat \<bar>s\<bar>),
       np_choice = (\<lambda>g n k. (Inr [0], Suc g)),
       minimize = (\<lambda>x0 m b os cb. t),
       CE_loss = sample_loss,
       str_increment = (\<lambda>i. ''increment''),
       float_mul = (\<lambda>f k. case f of
                             Finite x \<Rightarrow> Inr (Finite (x * real_of_int k))
                           | _ \<Rightarrow> Inr NaN) \<rparr>"

definition sample_kwargs :: "int option \<Rightarrow> increment \<Rightarrow> init_kwargs" where
  "sample_kwargs shots incr =
     \<lparr> kw_params = Some [9, 9], kw_nbshots = shots, kw_nbshots_increment = incr,
       kw_nbshots_incr_delay = Some 1, kw_loss = None, kw_job_size = None,
       kw_budget = None, kw_name = None, kw_save_path = None \<rparr>"

definition sample_world :: "int option \<Rightarrow> increment \<Rightarrow> world" where
  "sample_world shots incr =
     \<lparr> clf = projr (fst (init (sample_ext (Done [])) sample_circuit [PInt 0, PInt 1]
                           (sample_kwargs shots incr) 0)),
       files = Map.empty,
       rng = 0 \<rparr>"

definition sample_entered :: "fit_kwargs \<Rightarrow> world \<Rightarrow> world" where
  "sample_entered kw w = snd (fit_enter (sample_ext (Done [])) [[0, 0]] [0] None kw w)"

definition sample_ctx :: "fit_kwargs \<Rightarrow> world \<Rightarrow> fit_ctx" where
  "sample_ctx kw w = projr (fst (fit_enter (sample_ext (Done [])) [[0, 0]] [0] None kw w))"

definition sample_fit :: "optimizer \<Rightarrow> fit_kwargs \<Rightarrow> world \<Rightarrow> (error + unit) \<times> world" where
  "sample_fit t kw w = fit (sample_ext t) [[0, 0]] [0] None kw w"

section \<open>Properties\<close>

subsection \<open>Unfolding the model on concrete inputs\<close>

lemmas sample_defs = sample_fit_def sample_entered_def sample_ctx_def sample_world_def sample_kwargs_def sample_ext_def
  sample_loss_def sample_circuit_def default_fit_kwargs_def

lemmas predict_defs = predict_proba_def run_circuit_def select_columns_def np_item_def

lemmas init_defs = init_def check_bitstr_def the_int_def the_str_def opt_info_def

lemmas int_defs = int_base2_def strip_sign_def strip_prefix_def is_space_def

lemmas objective_defs = to_optimize_def adapt_shots_def evaluate_def record_evaluation_def
  commit_best_def call_nbshots_increment_def trunc_def int_of_float_def take_rows_def
  argsort_def

lemmas callback_defs = callback_def append_progress_def update_pbar_def save_def truthy_str_def

lemmas fit_defs = fit_def fit_enter_def fit_finalize_def dump_trace_def start_minimize_def
  passes_callback_def lower_def lower_char_def np_unique_def

lemmas run_defs = sample_defs init_defs predict_defs objective_defs callback_defs fit_defs Let_def

subsection \<open>What each step of the objective changes\<close>

lemma predict_proba_state: "snd (predict_proba X q c) = c\<lparr>nfev := nfev c + 1\<rparr>"
  by (simp add: predict_proba_def run_circuit_def Let_def split: prod.splits sum.splits option.splits)

lemma adapt_shots_state:
  "adapt_shots ext w = (r, w1) \<Longrightarrow> \<exists>nb. w1 = w\<lparr>clf := (clf w)\<lparr>nbshots := nb\<rparr>\<rparr>"
proof -
  assume a: "adapt_shots ext w = (r, w1)"
  have "w1 = w \<or> (\<exists>nb. w1 = w\<lparr>clf := (clf w)\<lparr>nbshots := nb\<rparr>\<rparr>)"
    using a by (auto simp: adapt_shots_def Let_def split: option.splits sum.splits)
  moreover have "w = w\<lparr>clf := (clf w)\<lparr>nbshots := nbshots (clf w)\<rparr>\<rparr>"
    by simp
  ultimately show ?thesis by metis
qed

lemma evaluate_state: "evaluate cx ps idx c = (r, c1) \<Longrightarrow> c1 = c \<or> c1 = c\<lparr>nfev := nfev c + 1\<rparr>"
proof -
  assume a: "evaluate cx ps idx c = (r, c1)"
  show ?thesis
  proof (cases "take_rows (cx_input cx) idx")
    case (Inl e)
    with a show ?thesis by (simp add: evaluate_def)
  next
    case (Inr X)
    obtain r' c' where p: "predict_proba X (Some ps) c = (r', c')"
      by (cases "predict_proba X (Some ps) c")
    have "c' = c\<lparr>nfev := nfev c + 1\<rparr>"
      using predict_proba_state [of X "Some ps" c] p by simp
    with a Inr p show ?thesis
      by (auto simp: evaluate_def split: sum.splits)
  qed
qed

lemma callback_frame:
  assumes "callback ps lf opf w = (r, w')"
  shows "params (clf w') = params (clf w)" "min_loss (clf w') = min_loss (clf w)"
    "nbshots (clf w') = nbshots (clf w)" "nfev (clf w') = nfev (clf w)"
  using assms
  by (auto simp: callback_def append_progress_def update_pbar_def save_def Let_def
           split: prod.splits sum.splits option.splits if_splits)

lemma to_optimize_InrE:
  assumes "to_optimize ext cx ps w = (Inr l, w')"
  obtains idx g w1 probas c2 c3 where
    "np_choice ext (rng w) (length (cx_target cx)) (cx_batch cx) = (Inr idx, g)"
    "adapt_shots ext (w\<lparr>rng := g\<rparr>) = (Inr (), w1)"
    "evaluate cx ps idx (clf w1) = (Inr (l, probas), c2)"
    "record_evaluation ps idx l probas c2 = (Inr (), c3)"
    "cx_method cx = ''COBYLA'' \<Longrightarrow>
       callback ps (cx_save_loss cx) (truthy_str (cx_save_output cx)) (w1\<lparr>clf := c3\<rparr>) = (Inr (), w')"
    "cx_method cx \<noteq> ''COBYLA'' \<Longrightarrow> w' = w1\<lparr>clf := c3\<rparr>"
  using assms unfolding to_optimize_def
  by (auto split: prod.splits sum.splits if_splits)

lemma record_evaluation_Inr:
  "record_evaluation ps idx l probas c = (Inr u, c3) \<Longrightarrow>
     \<exists>out. c3 = commit_best ps l (c\<lparr>last_loss_value := Some l, last_output := Some out\<rparr>)"
  by (auto simp: record_evaluation_def Let_def split: sum.splits)

lemma evaluate_fields:
  assumes "evaluate cx ps idx c = (r, c1)"
  shows "params c1 = params c" "min_loss c1 = min_loss c" "nbshots c1 = nbshots c"
    "n_iter c1 = n_iter c" "pbar c1 = pbar c" "loss_progress c1 = loss_progress c"
  using evaluate_state [OF assms] by auto

lemma record_evaluation_nbshots:
  "record_evaluation ps idx l probas c = (r, c3) \<Longrightarrow> nbshots c3 = nbshots c"
  by (auto simp: record_evaluation_def commit_best_def Let_def split: sum.splits if_splits)

lemma to_optimize_nbshots_after_adapt:
  assumes "np_choice ext (rng w) (length (cx_target cx)) (cx_batch cx) = (Inr idx, g)"
    and "adapt_shots ext (w\<lparr>rng := g\<rparr>) = (Inr u, w1)"
  shows "nbshots (clf (snd (to_optimize ext cx ps w))) = nbshots (clf w1)"
proof -
  obtain r2 c2 where e: "evaluate cx ps idx (clf w1) = (r2, c2)"
    by (cases "evaluate cx ps idx (clf w1)")
  have n2: "nbshots c2 = nbshots (clf w1)"
    using evaluate_fields(3) [OF e] .
  show ?thesis
  proof (cases r2)
    case (Inl err)
    then show ?thesis using assms e n2 by (simp add: to_optimize_def)
  next
    case (Inr lp)
    obtain l probas where lp: "lp = (l, probas)" by (cases lp)
    obtain r3 c3 where r: "record_evaluation ps idx l probas c2 = (r3, c3)"
      by (cases "record_evaluation ps idx l probas c2")
    have n3: "nbshots c3 = nbshots (clf w1)"
      using record_evaluation_nbshots [OF r] n2 by simp
    show ?thesis
    proof (cases r3)
      case (Inl err)
      then show ?thesis using assms e Inr lp r n3 by (simp add: to_optimize_def)
    next
      case u3: (Inr u3)
      show ?thesis
      proof (cases "cx_method cx = ''COBYLA''")
        case False
        then show ?thesis using assms e Inr lp r u3 n3 by (simp add: to_optimize_def)
      next
        case True
        obtain r4 w4 where c: "callback ps (cx_save_loss cx) (truthy_str (cx_save_output cx))
            (w1\<lparr>clf := c3\<rparr>) = (r4, w4)"
          by (cases "callback ps (cx_save_loss cx) (truthy_str (cx_save_output cx)) (w1\<lparr>clf := c3\<rparr>)")
        have "nbshots (clf w4) = nbshots c3"
          using callback_frame(3) [OF c] by simp
        then show ?thesis
          using assms e Inr lp r u3 n3 True c by (cases r4) (simp_all add: to_optimize_def)
      qed
    qed
  qed
qed

text \<open>
  The iteration counter and the progress bar exist from the entry of \<open>fit\<close> on, and
  every step of a run of the optimizer that does not raise keeps them; so the
  finalization of such a run finds them and does not raise.
\<close>

lemma callback_Inr_counters:
  "callback ps lf opf w = (Inr u, w') \<Longrightarrow> n_iter (clf w') \<noteq> None \<and> pbar (clf w') \<noteq> None"
  by (auto simp: callback_def append_progress_def update_pbar_def save_def Let_def
           split: prod.splits sum.splits option.splits if_splits)

lemma commit_best_counters:
  "n_iter (commit_best ps l c) = n_iter c" "pbar (commit_best ps l c) = pbar c"
  by (simp_all add: commit_best_def)

lemma to_optimize_Inr_counters:
  assumes "to_optimize ext cx ps w = (Inr l, w')"
    and "n_iter (clf w) \<noteq> None \<and> pbar (clf w) \<noteq> None"
  shows "n_iter (clf w') \<noteq> None \<and> pbar (clf w') \<noteq> None"
proof (rule to_optimize_InrE [OF assms(1)])
  fix idx g w1 probas c2 c3
  assume a: "adapt_shots ext (w\<lparr>rng := g\<rparr>) = (Inr (), w1)"
    and e: "evaluate cx ps idx (clf w1) = (Inr (l, probas), c2)"
    and r: "record_evaluation ps idx l probas c2 = (Inr (), c3)"
    and c: "cx_method cx = ''COBYLA'' \<Longrightarrow>
       callback ps (cx_save_loss cx) (truthy_str (cx_save_output cx)) (w1\<lparr>clf := c3\<rparr>) = (Inr (), w')"
    and n: "cx_method cx \<noteq> ''COBYLA'' \<Longrightarrow> w' = w1\<lparr>clf := c3\<rparr>"
  obtain nb where w1: "w1 = w\<lparr>rng := g, clf := (clf w)\<lparr>nbshots := nb\<rparr>\<rparr>"
    using adapt_shots_state [OF a] by auto
  have c2: "n_iter c2 = n_iter (clf w)" "pbar c2 = pbar (clf w)"
    using evaluate_fields(4,5) [OF e] by (simp_all add: w1)
  obtain out where c3: "c3 = commit_best ps l (c2\<lparr>last_loss_value := Some l, last_output := Some out\<rparr>)"
    using record_evaluation_Inr [OF r] by blast
  have k3: "n_iter c3 = n_iter (clf w)" "pbar c3 = pbar (clf w)"
    using c2 by (simp_all add: c3 commit_best_counters)
  show ?thesis
  proof (cases "cx_method cx = ''COBYLA''")
    case True
    then show ?thesis using callback_Inr_counters [OF c [OF True]] by simp
  next
    case False
    then show ?thesis using n k3 assms(2) by simp
  qed
qed

lemma drive_Inr_counters:
  "drive ext cx cb t w = (Inr x, w1) \<Longrightarrow> n_iter (clf w) \<noteq> None \<and> pbar (clf w) \<noteq> None \<Longrightarrow>
     n_iter (clf w1) \<noteq> None \<and> pbar (clf w1) \<noteq> None"
proof (induction t arbitrary: w)
  case (Done x')
  then show ?case by simp
next
  case (Probe p k)
  obtain r w' where t: "to_optimize ext cx p w = (r, w')"
    by (cases "to_optimize ext cx p w")
  with Probe.prems(1) obtain l where l: "r = Inr l" and d: "drive ext cx cb (k l) w' = (Inr x, w1)"
    by (cases r) auto
  have "n_iter (clf w') \<noteq> None \<and> pbar (clf w') \<noteq> None"
    using to_optimize_Inr_counters [OF t [unfolded l] Probe.prems(2)] .
  then show ?case
    using Probe.IH [of "k l" w'] d by blast
next
  case (Report xk t)
  show ?case
  proof (cases cb)
    case True
    obtain r w' where c: "callback xk (cx_save_loss cx) (truthy_str (cx_save_output cx)) w = (r, w')"
      by (cases "callback xk (cx_save_loss cx) (truthy_str (cx_save_output cx)) w")
    with Report.prems(1) True obtain u where u: "r = Inr u" and d: "drive ext cx cb t w' = (Inr x, w1)"
      by (cases r) auto
    have "n_iter (clf w') \<noteq> None \<and> pbar (clf w') \<noteq> None"
      using callback_Inr_counters [OF c [unfolded u]] .
    then show ?thesis using Report.IH [OF d] by blast
  next
    case False
    then show ?thesis using Report by simp
  qed
next
  case (Raise e)
  then show ?case by simp
qed

lemma fit_enter_Inr:
  assumes "fit_enter ext input_train target_train batch_size kw w = (Inr cx, w0)"
  shows "n_iter (clf w0) \<noteq> None \<and> pbar (clf w0) \<noteq> None"
    "cx_save_output cx = fit_save_output_progress kw" "cx_target cx = target_train"
  using assms by (auto simp: fit_enter_def Let_def split: if_splits option.splits)

lemma fit_finalize_result:
  assumes "n_iter (clf w1) \<noteq> None \<and> pbar (clf w1) \<noteq> None"
  shows "fst (fit_finalize cx x w1) = Inr ()"
    "params (clf (snd (fit_finalize cx x w1))) = x"
    "loss_progress (clf (snd (fit_finalize cx x w1))) = loss_progress (clf w1)"
    "cx_save_output cx = Some path \<Longrightarrow> path \<noteq> [] \<Longrightarrow>
       files (snd (fit_finalize cx x w1)) path =
         Some (Trace (output_progress (clf w1)) (cx_target cx) (loss_progress (clf w1))
                 (params_progress (clf w1))) \<and>
       output_progress (clf (snd (fit_finalize cx x w1))) = [] \<and>
       params_progress (clf (snd (fit_finalize cx x w1))) = []"
  using assms
  by (auto simp: fit_finalize_def dump_trace_def Let_def split: option.splits)

lemma fit_unfold:
  assumes "fit_enter ext input_train target_train batch_size kw w = (Inr cx, w0)"
    and "drive ext cx (passes_callback (fit_method kw)) (start_minimize ext kw (clf w0)) w0 = (Inr x, w1)"
  shows "fit ext input_train target_train batch_size kw w = fit_finalize cx x w1"
    "n_iter (clf w1) \<noteq> None \<and> pbar (clf w1) \<noteq> None"
  using assms drive_Inr_counters [OF assms(2) fit_enter_Inr(1) [OF assms(1)]]
  by (simp_all add: fit_def)

lemma fit_enter_saves_nbshots:
  "fit_enter ext input_train target_train batch_size kw w = (Inr cx, w0) \<Longrightarrow>
     cx_nbshots cx = nbshots (clf w)"
  by (auto simp: fit_enter_def Let_def split: if_splits)

lemma fit_finalize_nbshots:
  "fit_finalize cx x w1 = (Inr u, w2) \<Longrightarrow> nbshots (clf w2) = cx_nbshots cx"
  by (auto simp: fit_finalize_def Let_def split: option.splits)

subsection \<open>Prediction\<close>

text \<open>
  C10. Every call of \<open>run_circuit\<close>, and so every call of \<open>predict_proba\<close>, of \<open>predict\<close>
  and of the call operator, leaves the classifier as it was but for \<open>nfev\<close>, which is
  one more. This holds for any classifier, in training or not, and also when the
  backend or the column selection raises.
\<close>

theorem run_circuit_counts_one_evaluation:
  "snd (run_circuit X ps c) = c\<lparr>nfev := nfev c + 1\<rparr> \<and>
   snd (predict_proba X ps c) = c\<lparr>nfev := nfev c + 1\<rparr> \<and>
   snd (predict X c) = c\<lparr>nfev := nfev c + 1\<rparr> \<and>
   snd (call X c) = c\<lparr>nfev := nfev c + 1\<rparr>"
proof -
  have r: "snd (run_circuit X q c) = c\<lparr>nfev := nfev c + 1\<rparr>" for q
    by (simp add: run_circuit_def Let_def)
  have p: "snd (predict_proba X q c) = snd (run_circuit X q c)" for q
    by (simp add: predict_proba_def split: prod.splits sum.splits option.splits)
  have l: "snd (predict X c) = snd (predict_proba X None c)"
    by (simp add: predict_def split: prod.splits sum.splits)
  show ?thesis
    by (simp add: r p l call_def)
qed

text \<open>
  On a string of binary digits \<open>int(s, 2)\<close> is the integer code of the string.
\<close>

lemma scan_binary_digits:
  "list_all (\<lambda>c. c = CHR ''0'' \<or> c = CHR ''1'') s \<Longrightarrow>
     scan_binary acc n False s = Inr (acc * 2 ^ length s + code_of_bits s, n + length s, [])"
proof (induction s arbitrary: acc n)
  case Nil
  then show ?case by simp
next
  case (Cons c cs)
  then show ?case by (auto simp: algebra_simps)
qed

lemma int_base2_binary_string:
  assumes "binary_string s"
  shows "int_base2 s = Inr (code_of_bits s)"
proof -
  from assms obtain c cs where s: "s = c # cs" and c: "c = CHR ''0'' \<or> c = CHR ''1''"
    and d: "list_all (\<lambda>c. c = CHR ''0'' \<or> c = CHR ''1'') s"
    by (cases s) (auto simp: binary_string_def)
  have w: "dropWhile is_space s = s"
    using s c by (auto simp: is_space_def)
  have g: "strip_sign s = (False, s)"
    using s c by (auto simp: strip_sign_def)
  have "strip_prefix s = s"
  proof (cases cs)
    case Nil
    then show ?thesis using s by (simp add: strip_prefix_def)
  next
    case (Cons b r)
    then have "b = CHR ''0'' \<or> b = CHR ''1''" using d s by simp
    then show ?thesis using s Cons by (auto simp: strip_prefix_def)
  qed
  then show ?thesis
    using w g s c scan_binary_digits [OF d, of 0 0]
    by (auto simp: int_base2_def)
qed

lemma check_bitstr_binary_strings:
  assumes "strs \<noteq> []" and "list_all binary_string strs"
  shows "check_bitstr (map PStr strs) = Inr (map code_of_bits strs)"
proof -
  have a: "mapM the_str (map PStr xs) = Inr xs" for xs
    by (induction xs) (simp_all add: the_str_def)
  have b: "list_all binary_string xs \<Longrightarrow> mapM int_base2 xs = Inr (map code_of_bits xs)" for xs
    by (induction xs) (simp_all add: int_base2_binary_string)
  from assms(1) obtain x xs where "strs = x # xs" by (cases strs) auto
  then show ?thesis
    using a [of strs] b [OF assms(2)] by (simp add: check_bitstr_def)
qed

lemma check_bitstr_codes:
  assumes "codes \<noteq> []"
  shows "check_bitstr (map PInt codes) = Inr codes"
proof -
  have a: "mapM the_int (map PInt xs) = Inr xs" for xs
    by (induction xs) (simp_all add: the_int_def)
  from assms obtain x xs where "codes = x # xs" by (cases codes) auto
  then show ?thesis
    using a [of codes] by (simp add: check_bitstr_def)
qed

text \<open>
  C7. A non-empty list of binary digit strings builds the classifier that the list of
  their integer codes builds: the construction returns the same result from the same
  other arguments, the result is a classifier whose bitstrings are the integer codes of
  the strings, and the two classifiers give the same probabilities and the same labels
  on the same input with the same parameters. For \<open>["00", "01"]\<close> the codes are
  \<open>[0, 1]\<close>.
\<close>

theorem binary_strings_equal_integer_codes:
  assumes "strs \<noteq> []" and "list_all binary_string strs"
  shows "init ext circ (map PStr strs) kw g = init ext circ (map PInt (map code_of_bits strs)) kw g \<and>
    (case fst (init ext circ (map PStr strs) kw g) of
       Inl e \<Rightarrow> False
     | Inr c \<Rightarrow> bitstr c = map code_of_bits strs) \<and>
    map_sum id (\<lambda>c. fst (predict_proba X ps c)) (fst (init ext circ (map PStr strs) kw g)) =
    map_sum id (\<lambda>c. fst (predict_proba X ps c))
      (fst (init ext circ (map PInt (map code_of_bits strs)) kw g)) \<and>
    map_sum id (\<lambda>c. fst (predict X c)) (fst (init ext circ (map PStr strs) kw g)) =
    map_sum id (\<lambda>c. fst (predict X c))
      (fst (init ext circ (map PInt (map code_of_bits strs)) kw g))"
proof -
  have s: "check_bitstr (map PStr strs) = Inr (map code_of_bits strs)"
    using assms by (rule check_bitstr_binary_strings)
  have i: "check_bitstr (map PInt (map code_of_bits strs)) = Inr (map code_of_bits strs)"
    by (rule check_bitstr_codes) (simp add: assms(1))
  have "init ext circ a kw g = init ext circ b kw g" if "check_bitstr a = check_bitstr b" for a b
    using that by (simp add: init_def)
  then have e: "init ext circ (map PStr strs) kw g =
      init ext circ (map PInt (map code_of_bits strs)) kw g"
    using s i by metis
  have b: "(case fst (init ext circ (map PStr strs) kw g) of
              Inl e \<Rightarrow> False
            | Inr c \<Rightarrow> bitstr c = map code_of_bits strs)"
    by (simp add: init_def s Let_def split: prod.splits)
  show ?thesis
    using b e by simp
qed

text \<open>
  C7 at the claim's own lists, \<open>["00", "01"]\<close> against \<open>[0, 1]\<close>, and at
  \<open>["10", "11"]\<close>, whose codes are 2 and 3.
\<close>

theorem binary_strings_equal_integer_codes_witness:
  "init (sample_ext (Done [])) sample_circuit [PStr ''00'', PStr ''01''] (sample_kwargs None NoIncrement) 0 =
   init (sample_ext (Done [])) sample_circuit [PInt 0, PInt 1] (sample_kwargs None NoIncrement) 0 \<and>
   map_sum id bitstr (fst (init (sample_ext (Done [])) sample_circuit [PStr ''00'', PStr ''01'']
                             (sample_kwargs None NoIncrement) 0)) = Inr [0, 1] \<and>
   map_sum id bitstr (fst (init (sample_ext (Done [])) sample_circuit [PStr ''10'', PStr ''11'']
                             (sample_kwargs None NoIncrement) 0)) = Inr [2, 3] \<and>
   map_sum id (\<lambda>c. fst (predict_proba [[0, 0]] (Some [0.25, 0.75]) c))
     (fst (init (sample_ext (Done [])) sample_circuit [PStr ''00'', PStr ''01'']
             (sample_kwargs None NoIncrement) 0)) =
   map_sum id (\<lambda>c. fst (predict_proba [[0, 0]] (Some [0.25, 0.75]) c))
     (fst (init (sample_ext (Done [])) sample_circuit [PInt 0, PInt 1]
             (sample_kwargs None NoIncrement) 0))"
proof -
  have h: "[''00'', ''01''] \<noteq> []" "list_all binary_string [''00'', ''01'']"
    by (simp_all add: binary_string_def)
  have t: "map_sum id bitstr (fst (init (sample_ext (Done [])) sample_circuit
      [PStr ''10'', PStr ''11''] (sample_kwargs None NoIncrement) 0)) = Inr [2, 3]"
    by (simp add: sample_defs init_defs int_defs Let_def)
  have z: "map_sum id bitstr (fst (init (sample_ext (Done [])) sample_circuit
      [PStr ''00'', PStr ''01''] (sample_kwargs None NoIncrement) 0)) = Inr [0, 1]"
    by (simp add: sample_defs init_defs int_defs Let_def)
  show ?thesis
    using binary_strings_equal_integer_codes [OF h, of "sample_ext (Done [])" sample_circuit
        "sample_kwargs None NoIncrement" 0 "[[0, 0]]" "Some [0.25, 0.75]"] t z
    by simp
qed

subsection \<open>Training\<close>

text \<open>
  C1, as the code has it. A call of \<open>fit\<close> that returns leaves the shot budget at the
  value it had before the call, whatever the adaptation policy did to it in between.
\<close>

theorem fit_restores_nbshots:
  assumes "fst (fit ext input_train target_train batch_size kw w) = Inr ()"
  shows "nbshots (clf (snd (fit ext input_train target_train batch_size kw w))) = nbshots (clf w)"
proof -
  obtain r0 w0 where e: "fit_enter ext input_train target_train batch_size kw w = (r0, w0)"
    by (cases "fit_enter ext input_train target_train batch_size kw w")
  show ?thesis
  proof (cases r0)
    case (Inl err)
    with assms e show ?thesis by (simp add: fit_def)
  next
    case (Inr cx)
    obtain r1 w1 where d: "drive ext cx (passes_callback (fit_method kw))
        (start_minimize ext kw (clf w0)) w0 = (r1, w1)"
      by (cases "drive ext cx (passes_callback (fit_method kw)) (start_minimize ext kw (clf w0)) w0")
    show ?thesis
    proof (cases r1)
      case (Inl err)
      with assms e Inr d show ?thesis by (simp add: fit_def)
    next
      case x: (Inr x)
      have f: "fit ext input_train target_train batch_size kw w = fit_finalize cx x w1"
        using e Inr d x by (simp add: fit_def)
      obtain u w2 where z: "fit_finalize cx x w1 = (Inr u, w2)"
        using assms f by (cases "fit_finalize cx x w1") auto
      have "nbshots (clf w2) = cx_nbshots cx" by (rule fit_finalize_nbshots [OF z])
      moreover have "cx_nbshots cx = nbshots (clf w)"
        using e Inr by (auto intro: fit_enter_saves_nbshots)
      ultimately show ?thesis using f z by simp
    qed
  qed
qed

text \<open>
  C1 at a concrete run. The policy adds five shots on every iteration of a two-evaluation COBYLA run that starts
  with ten shots: the budget is fifteen after the first evaluation and ten again after
  the call.
\<close>

theorem fit_restores_nbshots_witness:
  "fst (sample_fit (Probe [1, 0] (\<lambda>l. Probe [2, 0] (\<lambda>l. Done [3, 0])))
         (default_fit_kwargs\<lparr>fit_method := ''COBYLA''\<rparr>)
         (sample_world (Some 10) (IntIncrement 5))) = Inr () \<and>
   nbshots (clf (snd (sample_fit (Probe [1, 0] (\<lambda>l. Probe [2, 0] (\<lambda>l. Done [3, 0])))
         (default_fit_kwargs\<lparr>fit_method := ''COBYLA''\<rparr>)
         (sample_world (Some 10) (IntIncrement 5))))) = Some 10 \<and>
   nbshots (clf (snd (to_optimize (sample_ext (Done []))
         \<lparr> cx_input = [[0, 0]], cx_target = [0], cx_batch = 1, cx_labels = [0],
           cx_method = ''COBYLA'', cx_save_loss = False, cx_save_output = None,
           cx_nbshots = Some 10 \<rparr> [1, 0]
         (snd (fit_enter (sample_ext (Done [])) [[0, 0]] [0] None
                 (default_fit_kwargs\<lparr>fit_method := ''COBYLA''\<rparr>)
                 (sample_world (Some 10) (IntIncrement 5))))))) = Some 15"
proof -
  have r: "fst (sample_fit (Probe [1, 0] (\<lambda>l. Probe [2, 0] (\<lambda>l. Done [3, 0])))
         (default_fit_kwargs\<lparr>fit_method := ''COBYLA''\<rparr>)
         (sample_world (Some 10) (IntIncrement 5))) = Inr ()"
    by (simp add: run_defs)
  have n: "nbshots (clf (sample_world (Some 10) (IntIncrement 5))) = Some 10"
    by (simp add: sample_defs init_defs Let_def)
  have m: "nbshots (clf (snd (to_optimize (sample_ext (Done []))
         \<lparr> cx_input = [[0, 0]], cx_target = [0], cx_batch = 1, cx_labels = [0],
           cx_method = ''COBYLA'', cx_save_loss = False, cx_save_output = None,
           cx_nbshots = Some 10 \<rparr> [1, 0]
         (snd (fit_enter (sample_ext (Done [])) [[0, 0]] [0] None
                 (default_fit_kwargs\<lparr>fit_method := ''COBYLA''\<rparr>)
                 (sample_world (Some 10) (IntIncrement 5))))))) = Some 15"
    by (simp add: run_defs)
  show ?thesis
    using fit_restores_nbshots [OF r [unfolded sample_fit_def]] r n m
    by (simp add: sample_fit_def)
qed

text \<open>
  Against C1 as stated: a call of \<open>fit\<close> that ends with an exception does not reach
  the last statement of \<open>fit\<close>. The classifier starts with ten shots and the policy "add
  five"; the optimizer evaluates the objective once and raises, and the call ends with
  fifteen shots.
\<close>

theorem raising_fit_keeps_grown_nbshots:
  "nbshots (clf (sample_world (Some 10) (IntIncrement 5))) = Some 10 \<and>
   fst (sample_fit (Probe [1, 0] (\<lambda>l. Raise (External ''stop'')))
         (default_fit_kwargs\<lparr>fit_method := ''COBYLA''\<rparr>)
         (sample_world (Some 10) (IntIncrement 5))) = Inl (External ''stop'') \<and>
   nbshots (clf (snd (sample_fit (Probe [1, 0] (\<lambda>l. Raise (External ''stop'')))
         (default_fit_kwargs\<lparr>fit_method := ''COBYLA''\<rparr>)
         (sample_world (Some 10) (IntIncrement 5))))) = Some 15"
  by (simp add: run_defs)

text \<open>
  C2, as the code has it. An objective evaluation that returns a loss strictly smaller
  than \<open>__min_loss__\<close> commits the candidate parameters and that loss; any other
  evaluation that returns leaves the parameters and \<open>__min_loss__\<close> as they were.
  \<open>__min_loss__\<close> is the smallest loss seen since the classifier was constructed: it is
  infinity after \<open>__init__\<close> and no call of \<open>fit\<close> resets it.
\<close>

theorem to_optimize_commits_strict_improvement:
  assumes "to_optimize ext cx ps w = (Inr l, w')"
  shows "params (clf w') = (if float_lt l (min_loss (clf w)) then ps else params (clf w)) \<and>
         min_loss (clf w') = (if float_lt l (min_loss (clf w)) then l else min_loss (clf w))"
proof (rule to_optimize_InrE [OF assms])
  fix idx g w1 probas c2 c3
  assume a: "adapt_shots ext (w\<lparr>rng := g\<rparr>) = (Inr (), w1)"
    and e: "evaluate cx ps idx (clf w1) = (Inr (l, probas), c2)"
    and r: "record_evaluation ps idx l probas c2 = (Inr (), c3)"
    and c: "cx_method cx = ''COBYLA'' \<Longrightarrow>
       callback ps (cx_save_loss cx) (truthy_str (cx_save_output cx)) (w1\<lparr>clf := c3\<rparr>) = (Inr (), w')"
    and n: "cx_method cx \<noteq> ''COBYLA'' \<Longrightarrow> w' = w1\<lparr>clf := c3\<rparr>"
  obtain nb where w1: "w1 = w\<lparr>rng := g, clf := (clf w)\<lparr>nbshots := nb\<rparr>\<rparr>"
    using adapt_shots_state [OF a] by auto
  have c2: "params c2 = params (clf w)" "min_loss c2 = min_loss (clf w)"
    using evaluate_fields(1,2) [OF e] by (simp_all add: w1)
  obtain out where c3: "c3 = commit_best ps l (c2\<lparr>last_loss_value := Some l, last_output := Some out\<rparr>)"
    using record_evaluation_Inr [OF r] by blast
  have p3: "params c3 = (if float_lt l (min_loss (clf w)) then ps else params (clf w))"
    and m3: "min_loss c3 = (if float_lt l (min_loss (clf w)) then l else min_loss (clf w))"
    using c2 by (simp_all add: c3 commit_best_def)
  have "params (clf w') = params c3 \<and> min_loss (clf w') = min_loss c3"
  proof (cases "cx_method cx = ''COBYLA''")
    case True
    then show ?thesis using callback_frame(1,2) [OF c [OF True]] by simp
  next
    case False
    then show ?thesis using n by simp
  qed
  with p3 m3 show ?thesis by simp
qed

text \<open>C2 at a concrete run: the first evaluation of a first training call, at loss 1, is committed.\<close>

theorem to_optimize_commits_strict_improvement_witness:
  "fst (to_optimize (sample_ext (Done [])) (sample_ctx default_fit_kwargs (sample_world None NoIncrement))
          [1, 0] (sample_entered default_fit_kwargs (sample_world None NoIncrement))) = Inr (Finite 1) \<and>
   min_loss (clf (sample_entered default_fit_kwargs (sample_world None NoIncrement))) = PosInf \<and>
   params (clf (snd (to_optimize (sample_ext (Done []))
          (sample_ctx default_fit_kwargs (sample_world None NoIncrement))
          [1, 0] (sample_entered default_fit_kwargs (sample_world None NoIncrement))))) = [1, 0] \<and>
   min_loss (clf (snd (to_optimize (sample_ext (Done []))
          (sample_ctx default_fit_kwargs (sample_world None NoIncrement))
          [1, 0] (sample_entered default_fit_kwargs (sample_world None NoIncrement))))) = Finite 1"
proof -
  have r: "fst (to_optimize (sample_ext (Done [])) (sample_ctx default_fit_kwargs (sample_world None NoIncrement))
          [1, 0] (sample_entered default_fit_kwargs (sample_world None NoIncrement))) = Inr (Finite 1)"
    by (simp add: run_defs)
  have m: "min_loss (clf (sample_entered default_fit_kwargs (sample_world None NoIncrement))) = PosInf"
    by (simp add: run_defs)
  have e: "to_optimize (sample_ext (Done [])) (sample_ctx default_fit_kwargs (sample_world None NoIncrement))
          [1, 0] (sample_entered default_fit_kwargs (sample_world None NoIncrement)) =
        (Inr (Finite 1), snd (to_optimize (sample_ext (Done []))
          (sample_ctx default_fit_kwargs (sample_world None NoIncrement))
          [1, 0] (sample_entered default_fit_kwargs (sample_world None NoIncrement))))"
    using r by (simp add: prod_eq_iff)
  show ?thesis
    using to_optimize_commits_strict_improvement [OF e] r m by simp
qed

text \<open>
  Against C2 as stated: the first call saw loss 1 and ended with parameters [3, 0]. In
  the second call the first evaluation, at [2, 0], has loss 2, the best loss of that
  call; the optimizer then raises, and the parameters are still [3, 0], not [2, 0].
\<close>

theorem second_fit_misses_first_improvement:
  "fst (sample_fit (Probe [2, 0] (\<lambda>l. Raise (External ''stop''))) default_fit_kwargs
         (snd (sample_fit (Probe [1, 0] (\<lambda>l. Done [3, 0])) default_fit_kwargs
                 (sample_world None NoIncrement)))) = Inl (External ''stop'') \<and>
   last_loss_value (clf (snd (sample_fit (Probe [2, 0] (\<lambda>l. Raise (External ''stop''))) default_fit_kwargs
         (snd (sample_fit (Probe [1, 0] (\<lambda>l. Done [3, 0])) default_fit_kwargs
                 (sample_world None NoIncrement)))))) = Some (Finite 2) \<and>
   params (clf (snd (sample_fit (Probe [2, 0] (\<lambda>l. Raise (External ''stop''))) default_fit_kwargs
         (snd (sample_fit (Probe [1, 0] (\<lambda>l. Done [3, 0])) default_fit_kwargs
                 (sample_world None NoIncrement)))))) = [3, 0] \<and>
   min_loss (clf (snd (sample_fit (Probe [2, 0] (\<lambda>l. Raise (External ''stop''))) default_fit_kwargs
         (snd (sample_fit (Probe [1, 0] (\<lambda>l. Done [3, 0])) default_fit_kwargs
                 (sample_world None NoIncrement)))))) = Finite 1"
  by (simp add: run_defs)

text \<open>
  C3. When the entry code of \<open>fit\<close> and the optimizer's run return, \<open>fit\<close> returns and
  the classifier's parameters are the optimizer's final iterate \<open>x\<close>, whatever was
  committed during the run.
\<close>

theorem fit_sets_params_to_final_iterate:
  assumes "fit_enter ext input_train target_train batch_size kw w = (Inr cx, w0)"
    and "drive ext cx (passes_callback (fit_method kw)) (start_minimize ext kw (clf w0)) w0 = (Inr x, w1)"
  shows "fst (fit ext input_train target_train batch_size kw w) = Inr () \<and>
         params (clf (snd (fit ext input_train target_train batch_size kw w))) = x"
  using fit_unfold [OF assms] fit_finalize_result(1,2) [of w1 cx x] by simp

text \<open>
  C3 at a concrete run. The run probes [1, 0] (loss 1) and [2, 0] (loss 2) and reports [3, 0] as its result:
  the parameters after the call are [3, 0], although the best loss seen is the 1 of
  [1, 0].
\<close>

theorem fit_sets_params_to_final_iterate_witness:
  "fst (sample_fit (Probe [1, 0] (\<lambda>l. Probe [2, 0] (\<lambda>l. Done [3, 0]))) default_fit_kwargs
         (sample_world None NoIncrement)) = Inr () \<and>
   params (clf (snd (sample_fit (Probe [1, 0] (\<lambda>l. Probe [2, 0] (\<lambda>l. Done [3, 0])))
         default_fit_kwargs (sample_world None NoIncrement)))) = [3, 0] \<and>
   min_loss (clf (snd (sample_fit (Probe [1, 0] (\<lambda>l. Probe [2, 0] (\<lambda>l. Done [3, 0])))
         default_fit_kwargs (sample_world None NoIncrement)))) = Finite 1"
proof -
  let ?t = "Probe [1, 0] (\<lambda>l. Probe [2, 0] (\<lambda>l. Done [3, 0]))"
  let ?w = "sample_world None NoIncrement"
  let ?d = "drive (sample_ext ?t) (sample_ctx default_fit_kwargs ?w)
              (passes_callback (fit_method default_fit_kwargs))
              (start_minimize (sample_ext ?t) default_fit_kwargs
                 (clf (sample_entered default_fit_kwargs ?w)))
              (sample_entered default_fit_kwargs ?w)"
  have e: "fit_enter (sample_ext ?t) [[0, 0]] [0] None default_fit_kwargs ?w =
      (Inr (sample_ctx default_fit_kwargs ?w), sample_entered default_fit_kwargs ?w)"
    by (simp add: run_defs)
  have "fst ?d = Inr [3, 0]"
    by (simp add: run_defs)
  then have d: "?d = (Inr [3, 0], snd ?d)"
    by (simp add: prod_eq_iff)
  have m: "min_loss (clf (snd (sample_fit ?t default_fit_kwargs ?w))) = Finite 1"
    by (simp add: run_defs)
  show ?thesis
    using fit_sets_params_to_final_iterate [OF e d] m by (simp add: sample_fit_def)
qed

text \<open>
  C8, as the code has it. When \<open>fit\<close> is given a path for the output progress and the
  optimizer's run returns, the file at the path holds the output, label, loss and
  parameter history of the run, and the output and parameter buffers are empty; the
  loss progress buffer is what it was when the run ended.
\<close>

theorem fit_dumps_trace_keeps_loss_progress:
  assumes "fit_enter ext input_train target_train batch_size kw w = (Inr cx, w0)"
    and "drive ext cx (passes_callback (fit_method kw)) (start_minimize ext kw (clf w0)) w0 = (Inr x, w1)"
    and "fit_save_output_progress kw = Some path" and "path \<noteq> []"
  shows "fst (fit ext input_train target_train batch_size kw w) = Inr () \<and>
         files (snd (fit ext input_train target_train batch_size kw w)) path =
           Some (Trace (output_progress (clf w1)) target_train (loss_progress (clf w1))
                   (params_progress (clf w1))) \<and>
         output_progress (clf (snd (fit ext input_train target_train batch_size kw w))) = [] \<and>
         params_progress (clf (snd (fit ext input_train target_train batch_size kw w))) = [] \<and>
         loss_progress (clf (snd (fit ext input_train target_train batch_size kw w))) =
           loss_progress (clf w1)"
proof -
  have c: "cx_save_output cx = Some path" "cx_target cx = target_train"
    using fit_enter_Inr(2,3) [OF assms(1)] assms(3) by simp_all
  show ?thesis
    using fit_unfold [OF assms(1,2)] fit_finalize_result(1,3) [of w1 cx x]
      fit_finalize_result(4) [of w1 cx path x] c assms(4)
    by simp
qed

text \<open>C8 at a concrete run: one COBYLA evaluation at [1, 0] with the trace dumped to \<open>trace.json\<close>.\<close>

theorem fit_dumps_trace_keeps_loss_progress_witness:
  "fst (sample_fit (Probe [1, 0] (\<lambda>l. Done [3, 0]))
         (default_fit_kwargs\<lparr>fit_method := ''COBYLA'', fit_save_output_progress := Some ''trace.json''\<rparr>)
         (sample_world None NoIncrement)) = Inr () \<and>
   files (snd (sample_fit (Probe [1, 0] (\<lambda>l. Done [3, 0]))
         (default_fit_kwargs\<lparr>fit_method := ''COBYLA'', fit_save_output_progress := Some ''trace.json''\<rparr>)
         (sample_world None NoIncrement))) ''trace.json'' =
     Some (Trace [[[1, 0]]] [0] [Some (Finite 1)] [[1, 0]]) \<and>
   output_progress (clf (snd (sample_fit (Probe [1, 0] (\<lambda>l. Done [3, 0]))
         (default_fit_kwargs\<lparr>fit_method := ''COBYLA'', fit_save_output_progress := Some ''trace.json''\<rparr>)
         (sample_world None NoIncrement)))) = [] \<and>
   params_progress (clf (snd (sample_fit (Probe [1, 0] (\<lambda>l. Done [3, 0]))
         (default_fit_kwargs\<lparr>fit_method := ''COBYLA'', fit_save_output_progress := Some ''trace.json''\<rparr>)
         (sample_world None NoIncrement)))) = [] \<and>
   loss_progress (clf (snd (sample_fit (Probe [1, 0] (\<lambda>l. Done [3, 0]))
         (default_fit_kwargs\<lparr>fit_method := ''COBYLA'', fit_save_output_progress := Some ''trace.json''\<rparr>)
         (sample_world None NoIncrement)))) = [Some (Finite 1)]"
proof -
  let ?t = "Probe [1, 0] (\<lambda>l. Done [3, 0])"
  let ?kw = "default_fit_kwargs\<lparr>fit_method := ''COBYLA'', fit_save_output_progress := Some ''trace.json''\<rparr>"
  let ?w = "sample_world None NoIncrement"
  let ?d = "drive (sample_ext ?t) (sample_ctx ?kw ?w) (passes_callback (fit_method ?kw))
              (start_minimize (sample_ext ?t) ?kw (clf (sample_entered ?kw ?w)))
              (sample_entered ?kw ?w)"
  have e: "fit_enter (sample_ext ?t) [[0, 0]] [0] None ?kw ?w =
      (Inr (sample_ctx ?kw ?w), sample_entered ?kw ?w)"
    by (simp add: run_defs)
  have "fst ?d = Inr [3, 0]"
    by (simp add: run_defs)
  then have d: "?d = (Inr [3, 0], snd ?d)"
    by (simp add: prod_eq_iff)
  have p: "fit_save_output_progress ?kw = Some ''trace.json''" "''trace.json'' \<noteq> []"
    by simp_all
  have o: "output_progress (clf (snd ?d)) = [[[1, 0]]]"
    by (simp add: run_defs)
  have l: "loss_progress (clf (snd ?d)) = [Some (Finite 1)]"
    by (simp add: run_defs)
  have q: "params_progress (clf (snd ?d)) = [[1, 0]]"
    by (simp add: run_defs)
  show ?thesis
    using fit_dumps_trace_keeps_loss_progress [OF e d p] o l q by (simp add: sample_fit_def)
qed

text \<open>
  Against C8 as stated: after a call with a path for the output progress the loss
  progress buffer still holds the two losses of the run.
\<close>

theorem trace_dump_leaves_loss_progress:
  "fst (sample_fit (Probe [1, 0] (\<lambda>l. Probe [2, 0] (\<lambda>l. Done [2, 0])))
         (default_fit_kwargs\<lparr>fit_method := ''COBYLA'', fit_save_output_progress := Some ''out.json''\<rparr>)
         (sample_world None NoIncrement)) = Inr () \<and>
   output_progress (clf (snd (sample_fit (Probe [1, 0] (\<lambda>l. Probe [2, 0] (\<lambda>l. Done [2, 0])))
         (default_fit_kwargs\<lparr>fit_method := ''COBYLA'', fit_save_output_progress := Some ''out.json''\<rparr>)
         (sample_world None NoIncrement)))) = [] \<and>
   params_progress (clf (snd (sample_fit (Probe [1, 0] (\<lambda>l. Probe [2, 0] (\<lambda>l. Done [2, 0])))
         (default_fit_kwargs\<lparr>fit_method := ''COBYLA'', fit_save_output_progress := Some ''out.json''\<rparr>)
         (sample_world None NoIncrement)))) = [] \<and>
   loss_progress (clf (snd (sample_fit (Probe [1, 0] (\<lambda>l. Probe [2, 0] (\<lambda>l. Done [2, 0])))
         (default_fit_kwargs\<lparr>fit_method := ''COBYLA'', fit_save_output_progress := Some ''out.json''\<rparr>)
         (sample_world None NoIncrement)))) = [Some (Finite 1), Some (Finite 2)]"
  by (simp add: run_defs)

text \<open>
  C5, as the code has it. An objective evaluation whose minibatch is drawn sets the
  shot budget to what the policy returns for the current budget, the iteration counter
  \<open>__n_iter__\<close> and the minimum loss \<open>__min_loss__\<close>, and nothing later in the evaluation
  changes it. The iteration counter counts the calls of the end-of-iteration callback,
  not the calls of the objective. The policies: none returns the budget; a float \<open>f\<close>
  returns \<open>int(f * budget)\<close>, \<open>int\<close> of the float product, and an int \<open>i\<close> returns
  \<open>budget + i\<close> whenever the counter is a multiple of the delay, and the budget
  otherwise; a callable returns its own result on the three arguments.
\<close>

theorem to_optimize_recomputes_nbshots:
  assumes "np_choice ext (rng w) (length (cx_target cx)) (cx_batch cx) = (Inr idx, g)"
    and "n_iter (clf w) = Some n"
    and "call_nbshots_increment ext (clf w) (nbshots (clf w)) n (min_loss (clf w)) = Inr nb"
  shows "nbshots (clf (snd (to_optimize ext cx ps w))) = nb \<and>
     call_nbshots_increment ext (c\<lparr>nbshots_increment := NoIncrement\<rparr>) b m l = Inr b \<and>
     call_nbshots_increment ext (c\<lparr>nbshots_increment := FloatIncrement f\<rparr>) (Some k) m l =
       (if nbshots_incr_delay c = 0 then Inl ZeroDivisionError
        else if m mod nbshots_incr_delay c = 0
        then (case float_mul ext f k of
                Inl e \<Rightarrow> Inl e
              | Inr p \<Rightarrow> map_sum id Some (int_of_float p))
        else Inr (Some k)) \<and>
     call_nbshots_increment ext (c\<lparr>nbshots_increment := IntIncrement i\<rparr>) (Some k) m l =
       (if nbshots_incr_delay c = 0 then Inl ZeroDivisionError
        else if m mod nbshots_incr_delay c = 0 then Inr (Some (k + i))
        else Inr (Some k)) \<and>
     call_nbshots_increment ext (c\<lparr>nbshots_increment := Callable h\<rparr>) b m l = h b m l"
proof -
  have a: "adapt_shots ext (w\<lparr>rng := g\<rparr>) = (Inr (), w\<lparr>rng := g, clf := (clf w)\<lparr>nbshots := nb\<rparr>\<rparr>)"
    using assms(2,3) by (simp add: adapt_shots_def Let_def)
  have "nbshots (clf (snd (to_optimize ext cx ps w))) = nb"
    using to_optimize_nbshots_after_adapt [OF assms(1) a] by simp
  then show ?thesis
    by (simp add: call_nbshots_increment_def split: sum.splits)
qed

text \<open>
  C5 at a concrete run. With ten shots and the policy "add five" at delay one, the first evaluation of a call
  runs with fifteen shots; the float policy 1.5 takes five shots to seven (7.5 truncated).
\<close>

theorem to_optimize_recomputes_nbshots_witness:
  "nbshots (clf (sample_entered default_fit_kwargs (sample_world (Some 10) (IntIncrement 5)))) = Some 10 \<and>
   nbshots (clf (snd (to_optimize (sample_ext (Done []))
      (sample_ctx default_fit_kwargs (sample_world (Some 10) (IntIncrement 5))) [1, 0]
      (sample_entered default_fit_kwargs (sample_world (Some 10) (IntIncrement 5)))))) = Some 15 \<and>
   call_nbshots_increment (sample_ext (Done []))
      (clf (sample_world (Some 10) (FloatIncrement (Finite 1.5)))
         \<lparr>nbshots_increment := FloatIncrement (Finite 1.5)\<rparr>)
      (Some 5) 3 PosInf = Inr (Some 7)"
proof -
  let ?w = "sample_entered default_fit_kwargs (sample_world (Some 10) (IntIncrement 5))"
  let ?cx = "sample_ctx default_fit_kwargs (sample_world (Some 10) (IntIncrement 5))"
  have c: "np_choice (sample_ext (Done [])) (rng ?w) (length (cx_target ?cx)) (cx_batch ?cx) =
      (Inr [0], Suc 0)"
    by (simp add: run_defs)
  have n: "n_iter (clf ?w) = Some 0"
    by (simp add: run_defs)
  have p: "call_nbshots_increment (sample_ext (Done [])) (clf ?w) (nbshots (clf ?w)) 0
      (min_loss (clf ?w)) = Inr (Some 15)"
    by (simp add: run_defs)
  have s: "nbshots (clf ?w) = Some 10"
    by (simp add: run_defs)
  have d: "nbshots_incr_delay (clf (sample_world (Some 10) (FloatIncrement (Finite 1.5)))) = 1"
    by (simp add: run_defs)
  have f: "float_mul (sample_ext (Done [])) (Finite 1.5) 5 = Inr (Finite 7.5)"
    by (simp add: sample_ext_def)
  show ?thesis
    using to_optimize_recomputes_nbshots [OF c n p,
        where ps = "[1, 0]" and c = "clf (sample_world (Some 10) (FloatIncrement (Finite 1.5)))"
          and f = "Finite 1.5" and k = 5 and m = 3 and l = PosInf] s d f
    by (simp add: trunc_def int_of_float_def)
qed

text \<open>
  Against C5 as stated: under BFGS, whose callback is the optimizer's, the policy
  \<open>100 + n_iter\<close> gives 100 at the second objective call of the run, when one
  objective call has been made; the circuit has run twice when the optimizer raises.
\<close>

theorem policy_ignores_objective_call_count:
  "fst (sample_fit (Probe [1, 0] (\<lambda>l. Probe [2, 0] (\<lambda>l. Raise (External ''stop''))))
         default_fit_kwargs
         (sample_world (Some 10) (Callable (\<lambda>b m l. Inr (Some (100 + m)))))) = Inl (External ''stop'') \<and>
   nfev (clf (snd (sample_fit (Probe [1, 0] (\<lambda>l. Probe [2, 0] (\<lambda>l. Raise (External ''stop''))))
         default_fit_kwargs
         (sample_world (Some 10) (Callable (\<lambda>b m l. Inr (Some (100 + m)))))))) = 2 \<and>
   nbshots (clf (snd (sample_fit (Probe [1, 0] (\<lambda>l. Probe [2, 0] (\<lambda>l. Raise (External ''stop''))))
         default_fit_kwargs
         (sample_world (Some 10) (Callable (\<lambda>b m l. Inr (Some (100 + m)))))))) = Some 100"
  by (simp add: run_defs)

text \<open>
  What an objective evaluation that returns does to the iteration counter and to the
  loss progress: under the method name \<open>COBYLA\<close> the counter is one more and, when a
  save flag is set, the loss of the evaluation is appended; under any other name both
  are as before, and only the optimizer's own reports move them.
\<close>

lemma callback_Inr_history:
  assumes "callback ps lf opf w = (Inr u, w')"
  shows "n_iter (clf w') = map_option (\<lambda>n. n + 1) (n_iter (clf w))"
    "loss_progress (clf w') =
       (if lf \<or> opf then loss_progress (clf w) @ [last_loss_value (clf w)] else loss_progress (clf w))"
  using assms
  by (auto simp: callback_def append_progress_def update_pbar_def save_def Let_def
           split: prod.splits sum.splits option.splits if_splits)

lemma commit_best_history:
  "n_iter (commit_best ps l c) = n_iter c" "loss_progress (commit_best ps l c) = loss_progress c"
  "last_loss_value (commit_best ps l c) = last_loss_value c"
  by (simp_all add: commit_best_def)

lemma cobyla_evaluation_records_one_entry:
  assumes "to_optimize ext cx ps w = (Inr l, w')" and "cx_method cx = ''COBYLA''"
  shows "n_iter (clf w') = map_option (\<lambda>n. n + 1) (n_iter (clf w)) \<and>
         loss_progress (clf w') =
           (if cx_save_loss cx \<or> truthy_str (cx_save_output cx)
            then loss_progress (clf w) @ [Some l] else loss_progress (clf w))"
proof (rule to_optimize_InrE [OF assms(1)])
  fix idx g w1 probas c2 c3
  assume a: "adapt_shots ext (w\<lparr>rng := g\<rparr>) = (Inr (), w1)"
    and e: "evaluate cx ps idx (clf w1) = (Inr (l, probas), c2)"
    and r: "record_evaluation ps idx l probas c2 = (Inr (), c3)"
    and c: "cx_method cx = ''COBYLA'' \<Longrightarrow>
       callback ps (cx_save_loss cx) (truthy_str (cx_save_output cx)) (w1\<lparr>clf := c3\<rparr>) = (Inr (), w')"
  obtain nb where w1: "w1 = w\<lparr>rng := g, clf := (clf w)\<lparr>nbshots := nb\<rparr>\<rparr>"
    using adapt_shots_state [OF a] by auto
  have c2: "n_iter c2 = n_iter (clf w)" "loss_progress c2 = loss_progress (clf w)"
    using evaluate_fields(4,6) [OF e] by (simp_all add: w1)
  obtain out where c3: "c3 = commit_best ps l (c2\<lparr>last_loss_value := Some l, last_output := Some out\<rparr>)"
    using record_evaluation_Inr [OF r] by blast
  have k3: "n_iter c3 = n_iter (clf w)" "loss_progress c3 = loss_progress (clf w)"
    "last_loss_value c3 = Some l"
    using c2 by (simp_all add: c3 commit_best_history)
  show ?thesis
    using callback_Inr_history [OF c [OF assms(2)]] k3 by simp
qed

lemma other_method_evaluation_records_nothing:
  assumes "to_optimize ext cx ps w = (Inr l, w')" and "cx_method cx \<noteq> ''COBYLA''"
  shows "n_iter (clf w') = n_iter (clf w) \<and> loss_progress (clf w') = loss_progress (clf w)"
proof (rule to_optimize_InrE [OF assms(1)])
  fix idx g w1 probas c2 c3
  assume a: "adapt_shots ext (w\<lparr>rng := g\<rparr>) = (Inr (), w1)"
    and e: "evaluate cx ps idx (clf w1) = (Inr (l, probas), c2)"
    and r: "record_evaluation ps idx l probas c2 = (Inr (), c3)"
    and n: "cx_method cx \<noteq> ''COBYLA'' \<Longrightarrow> w' = w1\<lparr>clf := c3\<rparr>"
  obtain nb where w1: "w1 = w\<lparr>rng := g, clf := (clf w)\<lparr>nbshots := nb\<rparr>\<rparr>"
    using adapt_shots_state [OF a] by auto
  have c2: "n_iter c2 = n_iter (clf w)" "loss_progress c2 = loss_progress (clf w)"
    using evaluate_fields(4,6) [OF e] by (simp_all add: w1)
  obtain out where c3: "c3 = commit_best ps l (c2\<lparr>last_loss_value := Some l, last_output := Some out\<rparr>)"
    using record_evaluation_Inr [OF r] by blast
  have k3: "n_iter c3 = n_iter (clf w)" "loss_progress c3 = loss_progress (clf w)"
    using c2 by (simp_all add: c3 commit_best_history)
  show ?thesis
    using n [OF assms(2)] k3 by simp
qed

lemma cobyla_evaluation_records_one_entry_witness:
  "fst (to_optimize (sample_ext (Done []))
          (sample_ctx (default_fit_kwargs\<lparr>fit_method := ''COBYLA'', fit_save_loss_progress := True\<rparr>)
             (sample_world None NoIncrement)) [1, 0]
          (sample_entered (default_fit_kwargs\<lparr>fit_method := ''COBYLA'', fit_save_loss_progress := True\<rparr>)
             (sample_world None NoIncrement))) = Inr (Finite 1) \<and>
   n_iter (clf (snd (to_optimize (sample_ext (Done []))
          (sample_ctx (default_fit_kwargs\<lparr>fit_method := ''COBYLA'', fit_save_loss_progress := True\<rparr>)
             (sample_world None NoIncrement)) [1, 0]
          (sample_entered (default_fit_kwargs\<lparr>fit_method := ''COBYLA'', fit_save_loss_progress := True\<rparr>)
             (sample_world None NoIncrement))))) = Some 1 \<and>
   loss_progress (clf (snd (to_optimize (sample_ext (Done []))
          (sample_ctx (default_fit_kwargs\<lparr>fit_method := ''COBYLA'', fit_save_loss_progress := True\<rparr>)
             (sample_world None NoIncrement)) [1, 0]
          (sample_entered (default_fit_kwargs\<lparr>fit_method := ''COBYLA'', fit_save_loss_progress := True\<rparr>)
             (sample_world None NoIncrement))))) = [Some (Finite 1)]"
proof -
  let ?kw = "default_fit_kwargs\<lparr>fit_method := ''COBYLA'', fit_save_loss_progress := True\<rparr>"
  let ?w = "sample_entered ?kw (sample_world None NoIncrement)"
  let ?cx = "sample_ctx ?kw (sample_world None NoIncrement)"
  let ?t = "to_optimize (sample_ext (Done [])) ?cx [1, 0] ?w"
  have r: "fst ?t = Inr (Finite 1)"
    by (simp add: run_defs)
  then have e: "?t = (Inr (Finite 1), snd ?t)"
    by (simp add: prod_eq_iff)
  have m: "cx_method ?cx = ''COBYLA''" "cx_save_loss ?cx" "n_iter (clf ?w) = Some 0"
    "loss_progress (clf ?w) = []"
    by (simp_all add: run_defs)
  show ?thesis
    using cobyla_evaluation_records_one_entry [OF e m(1)] r m by simp
qed

lemma other_method_evaluation_records_nothing_witness:
  "fst (to_optimize (sample_ext (Done []))
          (sample_ctx (default_fit_kwargs\<lparr>fit_save_loss_progress := True\<rparr>)
             (sample_world None NoIncrement)) [1, 0]
          (sample_entered (default_fit_kwargs\<lparr>fit_save_loss_progress := True\<rparr>)
             (sample_world None NoIncrement))) = Inr (Finite 1) \<and>
   n_iter (clf (snd (to_optimize (sample_ext (Done []))
          (sample_ctx (default_fit_kwargs\<lparr>fit_save_loss_progress := True\<rparr>)
             (sample_world None NoIncrement)) [1, 0]
          (sample_entered (default_fit_kwargs\<lparr>fit_save_loss_progress := True\<rparr>)
             (sample_world None NoIncrement))))) = Some 0 \<and>
   loss_progress (clf (snd (to_optimize (sample_ext (Done []))
          (sample_ctx (default_fit_kwargs\<lparr>fit_save_loss_progress := True\<rparr>)
             (sample_world None NoIncrement)) [1, 0]
          (sample_entered (default_fit_kwargs\<lparr>fit_save_loss_progress := True\<rparr>)
             (sample_world None NoIncrement))))) = []"
proof -
  let ?kw = "default_fit_kwargs\<lparr>fit_save_loss_progress := True\<rparr>"
  let ?w = "sample_entered ?kw (sample_world None NoIncrement)"
  let ?cx = "sample_ctx ?kw (sample_world None NoIncrement)"
  let ?t = "to_optimize (sample_ext (Done [])) ?cx [1, 0] ?w"
  have r: "fst ?t = Inr (Finite 1)"
    by (simp add: run_defs)
  then have e: "?t = (Inr (Finite 1), snd ?t)"
    by (simp add: prod_eq_iff)
  have m: "cx_method ?cx \<noteq> ''COBYLA''" "n_iter (clf ?w) = Some 0" "loss_progress (clf ?w) = []"
    by (simp_all add: run_defs)
  show ?thesis
    using other_method_evaluation_records_nothing [OF e m(1)] r m by simp
qed

text \<open>
  C4 at the method name \<open>cobyla\<close>, which the optimizer takes for COBYLA: the objective
  compares the name with \<open>COBYLA\<close> and does not call the callback, and \<open>fit\<close> finds the
  lower-cased name in \<open>'cobyla'\<close> and passes no callback. Two evaluations and two
  reported iterations leave the loss progress empty and the iteration count at zero,
  where the same run under \<open>COBYLA\<close> and under \<open>BFGS\<close> records two entries.
\<close>

theorem lowercase_cobyla_records_no_history:
  "fst (sample_fit (Probe [1, 0] (\<lambda>l. Report [1, 0] (Probe [2, 0] (\<lambda>l. Report [2, 0] (Done [2, 0])))))
         (default_fit_kwargs\<lparr>fit_method := ''cobyla'', fit_save_loss_progress := True\<rparr>)
         (sample_world None NoIncrement)) = Inr () \<and>
   loss_progress (clf (snd (sample_fit
         (Probe [1, 0] (\<lambda>l. Report [1, 0] (Probe [2, 0] (\<lambda>l. Report [2, 0] (Done [2, 0])))))
         (default_fit_kwargs\<lparr>fit_method := ''cobyla'', fit_save_loss_progress := True\<rparr>)
         (sample_world None NoIncrement)))) = [] \<and>
   info (clf (snd (sample_fit
         (Probe [1, 0] (\<lambda>l. Report [1, 0] (Probe [2, 0] (\<lambda>l. Report [2, 0] (Done [2, 0])))))
         (default_fit_kwargs\<lparr>fit_method := ''cobyla'', fit_save_loss_progress := True\<rparr>)
         (sample_world None NoIncrement)))) ''n_iter'' = Some (IInt 0) \<and>
   info (clf (snd (sample_fit
         (Probe [1, 0] (\<lambda>l. Report [1, 0] (Probe [2, 0] (\<lambda>l. Report [2, 0] (Done [2, 0])))))
         (default_fit_kwargs\<lparr>fit_method := ''cobyla'', fit_save_loss_progress := True\<rparr>)
         (sample_world None NoIncrement)))) ''nfev'' = Some (IInt 2) \<and>
   loss_progress (clf (snd (sample_fit
         (Probe [1, 0] (\<lambda>l. Report [1, 0] (Probe [2, 0] (\<lambda>l. Report [2, 0] (Done [2, 0])))))
         (default_fit_kwargs\<lparr>fit_method := ''COBYLA'', fit_save_loss_progress := True\<rparr>)
         (sample_world None NoIncrement)))) = [Some (Finite 1), Some (Finite 2)] \<and>
   loss_progress (clf (snd (sample_fit
         (Probe [1, 0] (\<lambda>l. Report [1, 0] (Probe [2, 0] (\<lambda>l. Report [2, 0] (Done [2, 0])))))
         (default_fit_kwargs\<lparr>fit_method := ''BFGS'', fit_save_loss_progress := True\<rparr>)
         (sample_world None NoIncrement)))) = [Some (Finite 1), Some (Finite 2)]"
  by (simp add: run_defs)

text \<open>
  C6, as the code has it. At entry \<open>fit\<close> creates the progress bar and sets the
  iteration counter to zero; every other attribute of the classifier, among them the
  minimum loss, the last loss, output and parameters and the three progress logs, keeps
  the value it had before the call, and no file is touched.
\<close>

theorem fit_enter_resets_only_counter:
  "clf (snd (fit_enter ext input_train target_train batch_size kw w)) =
     (clf w)\<lparr>pbar := Some 0, n_iter := Some 0\<rparr> \<and>
   files (snd (fit_enter ext input_train target_train batch_size kw w)) = files w"
  by (simp add: fit_enter_def Let_def split: option.splits)

text \<open>
  Against C6 as stated: a second call of \<open>fit\<close> on a classifier that was trained once,
  with the loss progress saved, starts with the minimum loss 1 of the first call (not
  infinity) and with the one-entry loss log of the first call (not an empty log).
\<close>

theorem second_fit_keeps_training_state:
  "min_loss (clf (snd (fit_enter (sample_ext (Done [])) [[0, 0]] [0] None default_fit_kwargs
      (snd (sample_fit (Probe [1, 0] (\<lambda>l. Done [3, 0]))
              (default_fit_kwargs\<lparr>fit_method := ''COBYLA'', fit_save_loss_progress := True\<rparr>)
              (sample_world None NoIncrement)))))) = Finite 1 \<and>
   loss_progress (clf (snd (fit_enter (sample_ext (Done [])) [[0, 0]] [0] None default_fit_kwargs
      (snd (sample_fit (Probe [1, 0] (\<lambda>l. Done [3, 0]))
              (default_fit_kwargs\<lparr>fit_method := ''COBYLA'', fit_save_loss_progress := True\<rparr>)
              (sample_world None NoIncrement)))))) = [Some (Finite 1)]"
  by (simp add: run_defs)

section \<open>The builder's index check\<close>

text \<open>
  C9. Each of the three gate placements (the input gate on one qubit, \<open>cz\<close>, \<open>fsim\<close>)
  fails with the out-of-range condition exactly when one of its qubit indices is outside
  [0, nbqbits), and succeeds exactly when all of them are inside.
\<close>

theorem gate_placement_validates_indices:
  "(fst (single_input sf idx theta b) = Inl OutOfRange) = (\<not> (0 \<le> idx \<and> idx < nbqbits b)) \<and>
   (fst (single_input sf idx theta b) = Inr ()) = (0 \<le> idx \<and> idx < nbqbits b) \<and>
   (fst (cz p q b) = Inl OutOfRange) = (\<not> (0 \<le> p \<and> p < nbqbits b \<and> 0 \<le> q \<and> q < nbqbits b)) \<and>
   (fst (cz p q b) = Inr ()) = (0 \<le> p \<and> p < nbqbits b \<and> 0 \<le> q \<and> q < nbqbits b) \<and>
   (fst (fsim p q theta phi b) = Inl OutOfRange) =
     (\<not> (0 \<le> p \<and> p < nbqbits b \<and> 0 \<le> q \<and> q < nbqbits b)) \<and>
   (fst (fsim p q theta phi b) = Inr ()) = (0 \<le> p \<and> p < nbqbits b \<and> 0 \<le> q \<and> q < nbqbits b)"
proof -
  have s: "(fst (single_input sf idx theta b) = Inl OutOfRange) = (\<not> (0 \<le> idx \<and> idx < nbqbits b))"
    "(fst (single_input sf idx theta b) = Inr ()) = (0 \<le> idx \<and> idx < nbqbits b)"
    by (auto simp: single_input_def verify_index_def)
  have c: "(fst (cz p q b) = Inl OutOfRange) =
      (\<not> (0 \<le> p \<and> p < nbqbits b \<and> 0 \<le> q \<and> q < nbqbits b))"
    "(fst (cz p q b) = Inr ()) = (0 \<le> p \<and> p < nbqbits b \<and> 0 \<le> q \<and> q < nbqbits b)"
    by (auto simp: cz_def verify_index_def)
  have f: "(fst (fsim p q theta phi b) = Inl OutOfRange) =
      (\<not> (0 \<le> p \<and> p < nbqbits b \<and> 0 \<le> q \<and> q < nbqbits b))"
    "(fst (fsim p q theta phi b) = Inr ()) = (0 \<le> p \<and> p < nbqbits b \<and> 0 \<le> q \<and> q < nbqbits b)"
    by (auto simp: fsim_def verify_index_def)
  from s c f show ?thesis by blast
qed

end
